theory Spec2Isabelle
  imports Complex_Main
begin

section \<open>Python values, exceptions and small library functions\<close>

text \<open>
  The provider is one Python class, \<open>OpenDataCubeProvider\<close>
  (\<open>src/odcprovider/odcprovider.py\<close>). Every \<open>raise\<close> of the source and of
  the libraries it calls is a value \<open>Inl e\<close> of a sum type; a method that returns is
  \<open>Inr v\<close>. Python floats are modelled as \<open>real\<close> (rounding is not modelled);
  true division by zero raises \<open>ZeroDivisionError\<close>.
\<close>

datatype exn =
    KeyError string
  | IndexError
  | ValueError string
  | AttributeError string
  | ZeroDivisionError
  | TypeError
  | LibraryError string
  | ProviderQueryError string
  | ProviderConnectionError exn

type_synonym bytes = string

text \<open>\<open>xs[i]\<close> for a constant, non-negative index \<open>i\<close>.\<close>

definition index :: "'a list \<Rightarrow> nat \<Rightarrow> exn + 'a" where
  "index xs i = (if i < length xs then Inr (xs ! i) else Inl IndexError)"

text \<open>\<open>a / b\<close> on numbers.\<close>

definition py_div :: "real \<Rightarrow> real \<Rightarrow> exn + real" where
  "py_div a b = (if b = 0 then Inl ZeroDivisionError else Inr (a / b))"

text \<open>\<open>str(n)\<close> for integers, as used by \<open>format\<close> and by \<open>str(num)\<close>.\<close>

definition digit_char :: "nat \<Rightarrow> char" where
  "digit_char d = ''0123456789'' ! d"

function str_nat :: "nat \<Rightarrow> string" where
  "str_nat n = (if n < 10 then [digit_char n] else str_nat (n div 10) @ [digit_char (n mod 10)])"
  by pat_completeness auto
termination
  by (relation "measure (\<lambda>n. n)") auto

declare str_nat.simps [simp del]

definition str_int :: "int \<Rightarrow> string" where
  "str_int i = (if i < 0 then CHR ''-'' # str_nat (nat (- i)) else str_nat (nat i))"

text \<open>\<open>'{}'.format(v)\<close> for \<open>v\<close> an integer or \<open>None\<close>.\<close>

definition format_epsg :: "int option \<Rightarrow> string" where
  "format_epsg v = (case v of None \<Rightarrow> ''None'' | Some n \<Rightarrow> str_int n)"

text \<open>\<open>str.lower()\<close> on ASCII text.\<close>

definition lower_char :: "char \<Rightarrow> char" where
  "lower_char c =
     (case map_of (zip ''ABCDEFGHIJKLMNOPQRSTUVWXYZ'' ''abcdefghijklmnopqrstuvwxyz'') c of
        None \<Rightarrow> c | Some d \<Rightarrow> d)"

definition lower :: "string \<Rightarrow> string" where
  "lower s = map lower_char s"

text \<open>
  A Python \<open>dict\<close> whose key order is observable is an association list with unique
  keys: \<open>d[k] = v\<close> replaces the value of a key in place and appends a new key.
\<close>

fun dict_set :: "('k \<times> 'v) list \<Rightarrow> 'k \<Rightarrow> 'v \<Rightarrow> ('k \<times> 'v) list" where
  "dict_set [] k v = [(k, v)]"
| "dict_set ((k', v') # d) k v = (if k' = k then (k, v) # d else (k', v') # dict_set d k v)"

definition dict_get :: "(string \<times> 'v) list \<Rightarrow> string \<Rightarrow> exn + 'v" where
  "dict_get d k = (case map_of d k of None \<Rightarrow> Inl (KeyError k) | Some v \<Rightarrow> Inr v)"

definition dict_keys :: "('k \<times> 'v) list \<Rightarrow> 'k list" where
  "dict_keys d = map fst d"

section \<open>The external collaborators\<close>

subsection \<open>datacube: coordinate reference systems, catalog records\<close>

text \<open>\<open>datacube.utils.geometry.CRS\<close>: the four members the provider reads.\<close>

record crs =
  crs_to_epsg :: "int option"
  crs_projected :: bool
  crs_units :: "string list"
  crs_dimensions :: "string list"

record BoundingBox =
  bb_left :: real
  bb_bottom :: real
  bb_right :: real
  bb_top :: real

text \<open>
  One row of \<open>dc.list_products()\<close>: \<open>resolution\<close> is a tuple or missing,
  \<open>crs\<close> is a string, \<open>None\<close> or null.
\<close>

record product_row =
  pr_name :: string
  pr_resolution :: "(real \<times> real) option"
  pr_crs :: "string option"

text \<open>
  One result of \<open>dc.find_datasets\<close>: \<open>dr_transform\<close> is
  \<open>metadata_doc['grids']['default']['transform']\<close>, absent when a key is missing.
\<close>

record dataset_record =
  dr_bounds :: BoundingBox
  dr_crs :: "crs option"
  dr_transform :: "real list option"

record measurement_row =
  mr_name :: string
  mr_dtype :: string
  mr_nodata :: real
  mr_units :: string
  mr_aliases :: "string list"

record measurement_table =
  mt_rows :: "measurement_row list"
  mt_has_aliases :: bool

subsection \<open>xarray: arrays and datasets\<close>

datatype ndarray = Scalar real | Arr "ndarray list"

text \<open>\<open>ndarray.flatten().tolist()\<close>: C order, the last axis varies fastest.\<close>

fun flatten :: "ndarray \<Rightarrow> real list" where
  "flatten (Scalar v) = [v]"
| "flatten (Arr xs) = concat (map flatten xs)"

fun np_shape :: "ndarray \<Rightarrow> nat list" where
  "np_shape (Scalar v) = []"
| "np_shape (Arr []) = [0]"
| "np_shape (Arr (x # xs)) = Suc (length xs) # np_shape x"

text \<open>
  A \<open>DataArray\<close>: reading \<open>.values\<close> may raise (a lazily loaded array), so it is a
  result.
\<close>

record DataArray =
  da_dims :: "string list"
  da_dtype :: string
  da_attrs :: "(string \<times> string) list"
  da_values :: "exn + ndarray"

text \<open>
  A \<open>Dataset\<close>: its coordinate variables by name, the sizes of its dimensions and its
  data variables in order. The names of coordinates and of data variables are distinct.
\<close>

record Dataset =
  ds_coords :: "string \<rightharpoonup> DataArray"
  ds_sizes :: "(string \<times> nat) list"
  ds_data_vars :: "(string \<times> DataArray) list"

text \<open>
  The variable that \<open>dataset[name]\<close> and \<open>dataset.name\<close> resolve to: a data variable or
  a coordinate. (Not modelled: the index that xarray makes up for a dimension without a
  coordinate, keys of the form \<open>name.component\<close>, and dataset-level attributes read as
  \<open>dataset.name\<close>; a dataset that \<open>dc.load\<close> returns has a coordinate for each of its
  dimensions.)
\<close>

definition dataset_variable :: "Dataset \<Rightarrow> string \<Rightarrow> DataArray option" where
  "dataset_variable ds name =
     (case map_of (ds_data_vars ds) name of
        Some da \<Rightarrow> Some da
      | None \<Rightarrow> ds_coords ds name)"

text \<open>
  \<open>dataset.time.attrs.pop('units', None)\<close>: the variable \<open>time\<close> loses its \<open>units\<close>
  attribute in place; a dataset without such a variable raises \<open>AttributeError\<close>.
\<close>

definition pop_units :: "DataArray \<Rightarrow> DataArray" where
  "pop_units da = da \<lparr> da_attrs := filter (\<lambda>kv. fst kv \<noteq> ''units'') (da_attrs da) \<rparr>"

definition time_attrs_pop_units :: "Dataset \<Rightarrow> exn + Dataset" where
  "time_attrs_pop_units ds =
     (case map_of (ds_data_vars ds) ''time'' of
        Some da \<Rightarrow>
          Inr (ds \<lparr> ds_data_vars :=
                      map (\<lambda>kv. if fst kv = ''time'' then (fst kv, pop_units (snd kv)) else kv)
                          (ds_data_vars ds) \<rparr>)
      | None \<Rightarrow>
          (case ds_coords ds ''time'' of
             Some c \<Rightarrow> Inr (ds \<lparr> ds_coords := (ds_coords ds)(''time'' \<mapsto> pop_units c) \<rparr>)
           | None \<Rightarrow> Inl (AttributeError ''time'')))"

text \<open>The keyword arguments of \<open>dc.load\<close>.\<close>

record load_params =
  lp_crs :: string
  lp_align :: "real \<times> real"
  lp_x :: "real \<times> real"
  lp_y :: "real \<times> real"
  lp_measurements :: "string list option"

text \<open>The \<open>datacube.Datacube\<close> handle: every call may raise.\<close>

record Datacube =
  dc_list_products :: "exn + product_row list"
  dc_get_by_name :: "string \<Rightarrow> exn + (string list) option"
  dc_find_datasets :: "string \<Rightarrow> exn + dataset_record list"
  dc_list_measurements :: "exn + (string \<Rightarrow> measurement_table option)"
  dc_load :: "string \<Rightarrow> load_params \<Rightarrow> exn + Dataset"

subsection \<open>Values of the output metadata\<close>

text \<open>
  \<open>out_meta\<close> is a \<open>dict\<close> that holds numbers, lists, strings, an integer or
  \<open>None\<close> (the EPSG code) and an \<open>Affine\<close>; the provider options are copied into it.
\<close>

datatype metaval =
    MNum real
  | MNums "real list"
  | MStr string
  | MStrs "string list"
  | MInt int
  | MNone
  | MAffine real real real real real real

type_synonym meta = "(string \<times> metaval) list"

record provider_def =
  pd_product :: "string option"
  pd_format :: "(string \<times> string) list option"
  pd_options :: "meta option"

subsection \<open>The libraries, as capabilities\<close>

text \<open>
  A \<open>pyproj.CRS\<close> built by \<open>CRS.from_epsg\<close> is identified by its code: two such
  objects are equal when their codes are.
\<close>

datatype pyproj_CRS = EPSG int

text \<open>
  \<open>env_BaseProvider_init\<close> is \<open>BaseProvider.__init__\<close> (it yields
  \<open>self.options\<close>), \<open>env_Datacube\<close> is \<open>datacube.Datacube(config=...)\<close>,
  \<open>env_CRS_dc\<close> the datacube \<open>CRS\<close> constructor, \<open>env_bbox_union\<close> is
  \<open>datacube.utils.geometry.bbox_union\<close>, \<open>env_epsg_valid\<close> says which codes
  \<open>pyproj.CRS.from_epsg\<close> accepts, \<open>env_Transformer\<close> is
  \<open>Transformer.from_crs(src, dest, always_xy=True)\<close> with its \<open>transform\<close>,
  \<open>env_memfile_open\<close> is \<open>MemoryFile().open(**out_meta)\<close>, \<open>env_dest_write\<close>
  is \<open>dest.write(array)\<close> followed by \<open>memfile.read()\<close>, and \<open>env_to_netcdf\<close> is
  \<open>Dataset.to_netcdf()\<close>.
\<close>

record env =
  env_ODC_CONFIG_FILE :: "string option"
  env_BaseProvider_init :: "provider_def \<Rightarrow> exn + (meta option)"
  env_Datacube :: "string \<Rightarrow> exn + Datacube"
  env_CRS_dc :: "string \<Rightarrow> exn + crs"
  env_bbox_union :: "BoundingBox list \<Rightarrow> BoundingBox"
  env_epsg_valid :: "int \<Rightarrow> bool"
  env_Transformer :: "pyproj_CRS \<Rightarrow> pyproj_CRS \<Rightarrow> exn + (real \<times> real \<Rightarrow> real \<times> real)"
  env_memfile_open :: "meta \<Rightarrow> exn + unit"
  env_dest_write :: "meta \<Rightarrow> ndarray \<Rightarrow> exn + bytes"
  env_to_netcdf :: "Dataset \<Rightarrow> exn + bytes"

text \<open>\<open>pyproj.CRS.from_epsg(code)\<close>: \<open>None\<close> and unknown codes raise \<open>CRSError\<close>.\<close>

definition CRS_from_epsg :: "env \<Rightarrow> int option \<Rightarrow> exn + pyproj_CRS" where
  "CRS_from_epsg e code =
     (case code of
        None \<Rightarrow> Inl (LibraryError ''CRSError'')
      | Some n \<Rightarrow> if env_epsg_valid e n then Inr (EPSG n) else Inl (LibraryError ''CRSError''))"

section \<open>The provider\<close>

definition ODC_CONFIG_FILE_DEFAULT :: string where
  "ODC_CONFIG_FILE_DEFAULT = ''datacube.conf''"

text \<open>
  The \<open>dict\<close> built by \<open>_get_coverage_properties\<close>. Its \<open>'bbox'\<close> entry is always the
  four-element list \<open>[left, bottom, right, top]\<close>, kept here as a tuple.
\<close>

record coverage_properties =
  cp_bbox :: "real \<times> real \<times> real \<times> real"
  cp_crs_uri :: string
  cp_crs_type :: string
  cp_bbox_units :: string
  cp_x_axis_label :: string
  cp_y_axis_label :: string
  cp_width :: real
  cp_height :: real
  cp_resx :: real
  cp_resy :: real
  cp_transform :: "real list"
  cp_num_bands :: nat
  cp_axes :: "string list"

record measurement =
  m_id :: nat
  m_name :: string
  m_dtype :: string
  m_nodata :: real
  m_unit :: string
  m_aliases :: "string list option"

record provider =
  p_options :: "meta option"
  p_dc :: Datacube
  p_product_name :: string
  p_crs_obj :: crs
  p_coverage_properties :: coverage_properties
  p_measurement_properties :: "measurement list"
  p_crs :: string
  p_axes :: "string list"
  p_num_bands :: nat
  p_fields :: "string list"
  p_native_format :: string

subsection \<open>\<open>_get_coverage_properties\<close>\<close>

text \<open>
  The body of the loop over \<open>dc.find_datasets\<close>: what one dataset appends to
  \<open>bbs\<close>, \<open>crs_list\<close>, \<open>resx_list\<close>, \<open>resy_list\<close>, \<open>transform_list\<close> and
  \<open>dim_list\<close>, in the order in which the source reads them.
\<close>

definition dataset_metadata ::
  "dataset_record \<Rightarrow> exn + (BoundingBox \<times> crs \<times> real \<times> real \<times> real list \<times> string list)" where
  "dataset_metadata d =
     (case dr_transform d of
        None \<Rightarrow> Inl (KeyError ''transform'')
      | Some t \<Rightarrow>
          (case index t 0 of Inl e \<Rightarrow> Inl e | Inr t0 \<Rightarrow>
          (case index t 4 of Inl e \<Rightarrow> Inl e | Inr t4 \<Rightarrow>
          (case dr_crs d of
             None \<Rightarrow> Inl (AttributeError ''dimensions'')
           | Some c \<Rightarrow> Inr (dr_bounds d, c, t0, t4, t, crs_dimensions c)))))"

fun collect_datasets ::
  "dataset_record list \<Rightarrow>
   exn + (BoundingBox \<times> crs \<times> real \<times> real \<times> real list \<times> string list) list" where
  "collect_datasets [] = Inr []"
| "collect_datasets (d # ds) =
     (case dataset_metadata d of Inl e \<Rightarrow> Inl e | Inr r \<Rightarrow>
     (case collect_datasets ds of Inl e \<Rightarrow> Inl e | Inr rs \<Rightarrow> Inr (r # rs)))"

text \<open>
  The method returns \<open>properties\<close> and assigns \<open>self.crs_obj\<close>; the model returns the
  pair. The three \<open>LOGGER.warning\<close> checks on heterogeneous datasets have no effect on
  the result and are left out.
\<close>

definition get_coverage_properties ::
  "env \<Rightarrow> Datacube \<Rightarrow> string \<Rightarrow> exn + (coverage_properties \<times> crs)" where
  "get_coverage_properties e dc product_name =
     (case dc_list_products dc of Inl err \<Rightarrow> Inl err | Inr product_list \<Rightarrow>
      let product_metadata = filter (\<lambda>r. pr_name r = product_name) product_list in
      (case index product_metadata 0 of Inl err \<Rightarrow> Inl err | Inr row \<Rightarrow>
      let res = pr_resolution row;
          resx = (case res of None \<Rightarrow> None | Some r \<Rightarrow> Some (snd r));
          resy = (case res of None \<Rightarrow> None | Some r \<Rightarrow> Some (fst r));
          crs_str = pr_crs row
      in
      (case dc_get_by_name dc product_name of Inl err \<Rightarrow> Inl err | Inr product \<Rightarrow>
      (case product of None \<Rightarrow> Inl (AttributeError ''measurements'') | Some ms \<Rightarrow>
      let num_bands = length ms in
      (case dc_find_datasets dc product_name of Inl err \<Rightarrow> Inl err | Inr datasets \<Rightarrow>
      (case collect_datasets datasets of Inl err \<Rightarrow> Inl err | Inr rs \<Rightarrow>
      let bbs = map (\<lambda>(b, c, rx, ry, t, dm). b) rs;
          crs_list = map (\<lambda>(b, c, rx, ry, t, dm). c) rs;
          resx_list = map (\<lambda>(b, c, rx, ry, t, dm). rx) rs;
          resy_list = map (\<lambda>(b, c, rx, ry, t, dm). ry) rs;
          transform_list = map (\<lambda>(b, c, rx, ry, t, dm). t) rs;
          bounds = env_bbox_union e bbs
      in
      (case (case crs_str of None \<Rightarrow> index crs_list 0 | Some s \<Rightarrow> env_CRS_dc e s) of
         Inl err \<Rightarrow> Inl err | Inr crs_obj \<Rightarrow>
      (case (case resx of None \<Rightarrow> index resx_list 0 | Some r \<Rightarrow> Inr r) of
         Inl err \<Rightarrow> Inl err | Inr resx' \<Rightarrow>
      (case (case resy of None \<Rightarrow> index resy_list 0 | Some r \<Rightarrow> Inr r) of
         Inl err \<Rightarrow> Inl err | Inr resy' \<Rightarrow>
      (case index transform_list 0 of Inl err \<Rightarrow> Inl err | Inr transform \<Rightarrow>
      (case py_div (bb_right bounds - bb_left bounds) resx' of Inl err \<Rightarrow> Inl err | Inr w \<Rightarrow>
      (case py_div (bb_top bounds - bb_bottom bounds) resy' of Inl err \<Rightarrow> Inl err | Inr h \<Rightarrow>
      let properties =
            \<lparr> cp_bbox = (bb_left bounds, bb_bottom bounds, bb_right bounds, bb_top bounds),
              cp_crs_uri = ''http://www.opengis.net/def/crs/OGC/1.3/CRS84'',
              cp_crs_type = ''GeographicCRS'',
              cp_bbox_units = ''deg'',
              cp_x_axis_label = ''Lon'',
              cp_y_axis_label = ''Lat'',
              cp_width = \<bar>w\<bar>,
              cp_height = \<bar>h\<bar>,
              cp_resx = resx',
              cp_resy = resy',
              cp_transform = transform,
              cp_num_bands = num_bands,
              cp_axes = [] \<rparr>
      in
      (case (if crs_projected crs_obj
             then (case index (crs_units crs_obj) 0 of Inl err \<Rightarrow> Inl err | Inr u \<Rightarrow>
                     Inr (properties
                       \<lparr> cp_crs_uri := ''http://www.opengis.net/def/crs/EPSG/9.8.15'' @ ''/''
                                          @ format_epsg (crs_to_epsg crs_obj),
                         cp_x_axis_label := ''x'',
                         cp_y_axis_label := ''y'',
                         cp_bbox_units := u,
                         cp_crs_type := ''ProjectedCRS'' \<rparr>))
             else Inr properties) of
         Inl err \<Rightarrow> Inl err
       | Inr properties' \<Rightarrow>
           Inr (properties' \<lparr> cp_axes := [cp_x_axis_label properties', cp_y_axis_label properties'] \<rparr>,
                crs_obj))))))))))))))"

subsection \<open>\<open>_get_measurement_properties\<close>\<close>

definition measurement_of_row :: "bool \<Rightarrow> nat \<Rightarrow> measurement_row \<Rightarrow> measurement" where
  "measurement_of_row has_aliases row r =
     \<lparr> m_id = row + 1,
       m_name = mr_name r,
       m_dtype = mr_dtype r,
       m_nodata = mr_nodata r,
       m_unit = mr_units r,
       m_aliases = (if has_aliases then Some (mr_aliases r) else None) \<rparr>"

definition get_measurement_properties :: "Datacube \<Rightarrow> string \<Rightarrow> exn + measurement list" where
  "get_measurement_properties dc product_name =
     (case dc_list_measurements dc of Inl err \<Rightarrow> Inl err | Inr measurement_list \<Rightarrow>
      (case measurement_list product_name of
         None \<Rightarrow> Inl (KeyError product_name)
       | Some measurement_metadata \<Rightarrow>
           Inr (map (\<lambda>row. measurement_of_row (mt_has_aliases measurement_metadata) row
                              (mt_rows measurement_metadata ! row))
                    [0 ..< length (mt_rows measurement_metadata)])))"

subsection \<open>\<open>__init__\<close>\<close>

text \<open>The body of the \<open>try\<close> block of the constructor.\<close>

definition init_try :: "env \<Rightarrow> meta option \<Rightarrow> Datacube \<Rightarrow> string \<Rightarrow> provider_def \<Rightarrow> exn + provider" where
  "init_try e options dc product_name pdef =
     (case get_coverage_properties e dc product_name of Inl err \<Rightarrow> Inl err | Inr (cp, crs_obj) \<Rightarrow>
     (case get_measurement_properties dc product_name of Inl err \<Rightarrow> Inl err | Inr mp \<Rightarrow>
     (case pd_format pdef of None \<Rightarrow> Inl (KeyError ''format'') | Some fmt \<Rightarrow>
     (case dict_get fmt ''name'' of Inl err \<Rightarrow> Inl err | Inr native_format \<Rightarrow>
        Inr \<lparr> p_options = options,
              p_dc = dc,
              p_product_name = product_name,
              p_crs_obj = crs_obj,
              p_coverage_properties = cp,
              p_measurement_properties = mp,
              p_crs = cp_crs_uri cp,
              p_axes = cp_axes cp,
              p_num_bands = cp_num_bands cp,
              p_fields = map str_nat [1 ..< cp_num_bands cp + 1],
              p_native_format = native_format \<rparr>))))"

text \<open>
  The constructor: a raise is \<open>Inl\<close>, and then no provider object exists for the
  caller; \<open>Inr\<close> carries the constructed object.
\<close>

definition init :: "env \<Rightarrow> provider_def \<Rightarrow> exn + provider" where
  "init e pdef =
     (case env_BaseProvider_init e pdef of Inl err \<Rightarrow> Inl err | Inr options \<Rightarrow>
      let dc_config_file =
            (case env_ODC_CONFIG_FILE e of None \<Rightarrow> ODC_CONFIG_FILE_DEFAULT | Some f \<Rightarrow> f)
      in
      (case env_Datacube e dc_config_file of Inl err \<Rightarrow> Inl err | Inr dc \<Rightarrow>
      (case pd_product pdef of None \<Rightarrow> Inl (KeyError ''product'') | Some product_name \<Rightarrow>
      (case init_try e options dc product_name pdef of
         Inl err \<Rightarrow> Inl (ProviderConnectionError err)
       | Inr self \<Rightarrow> Inr self))))"

section \<open>Queries\<close>

subsection \<open>The CoverageJSON document\<close>

record axis =
  ax_start :: metaval
  ax_stop :: metaval
  ax_num :: metaval

record cj_parameter =
  par_type :: string
  par_description :: string
  par_unit_symbol :: string
  par_observedProperty_id :: string
  par_observedProperty_label_en :: string

record cj_range =
  rg_type :: string
  rg_dataType :: string
  rg_axisNames :: "string list"
  rg_shape :: "metaval list"
  rg_values :: "real list"

record covjson =
  cj_type :: string
  cj_domain_type :: string
  cj_domain_domainType :: string
  cj_axes_x :: axis
  cj_axes_y :: axis
  cj_referencing_coordinates :: "string list"
  cj_referencing_system_type :: string
  cj_referencing_system_id :: string
  cj_parameters :: "(string \<times> cj_parameter) list"
  cj_ranges :: "(string \<times> cj_range) list"

text \<open>
  Iterating over a metadata value: a list yields its elements, a string its characters,
  an \<open>Affine\<close> its nine coefficients; a number or \<open>None\<close> is not iterable.
\<close>

fun iter_metaval :: "metaval \<Rightarrow> exn + metaval list" where
  "iter_metaval (MNums xs) = Inr (map MNum xs)"
| "iter_metaval (MStrs xs) = Inr (map MStr xs)"
| "iter_metaval (MStr s) = Inr (map (\<lambda>c. MStr [c]) s)"
| "iter_metaval (MAffine a b c d e f) = Inr (map MNum [a, b, c, d, e, f, 0, 0, 1])"
| "iter_metaval (MNum x) = Inl TypeError"
| "iter_metaval (MInt i) = Inl TypeError"
| "iter_metaval MNone = Inl TypeError"

text \<open>\<open>a, b, c, d = v\<close>\<close>

definition unpack4 :: "metaval \<Rightarrow> exn + (metaval \<times> metaval \<times> metaval \<times> metaval)" where
  "unpack4 v =
     (case iter_metaval v of
        Inl err \<Rightarrow> Inl err
      | Inr xs \<Rightarrow>
          (case xs of
             [a, b, c, d] \<Rightarrow> Inr (a, b, c, d)
           | _ \<Rightarrow> Inl (ValueError ''unpack'')))"

text \<open>
  \<open>dataset[bs]\<close>: the data variable or coordinate of that name; a key that names
  neither raises \<open>KeyError\<close>.
\<close>

definition dataset_getitem :: "Dataset \<Rightarrow> metaval \<Rightarrow> exn + (string \<times> DataArray)" where
  "dataset_getitem ds bs =
     (case bs of
        MStr b \<Rightarrow> (case dataset_variable ds b of None \<Rightarrow> Inl (KeyError b) | Some da \<Rightarrow> Inr (b, da))
      | _ \<Rightarrow> Inl (KeyError ''key''))"

subsection \<open>\<open>gen_covjson\<close>\<close>

text \<open>The first loop: \<open>for bs in bands_select\<close>, filling \<open>cj['parameters']\<close>.\<close>

fun parameters_loop ::
  "Dataset \<Rightarrow> metaval list \<Rightarrow> (string \<times> cj_parameter) list \<Rightarrow> exn + (string \<times> cj_parameter) list" where
  "parameters_loop ds [] ps = Inr ps"
| "parameters_loop ds (bs # rest) ps =
     (case dataset_getitem ds bs of Inl err \<Rightarrow> Inl err | Inr (b, da) \<Rightarrow>
     (case dict_get (da_attrs da) ''units'' of Inl err \<Rightarrow> Inl err | Inr u \<Rightarrow>
        parameters_loop ds rest
          (dict_set ps b
             \<lparr> par_type = ''Parameter'',
               par_description = b,
               par_unit_symbol = u,
               par_observedProperty_id = b,
               par_observedProperty_label_en = b \<rparr>)))"

text \<open>
  The second loop, the body of the \<open>try\<close> block:
  \<open>for key in cj['parameters'].keys()\<close>, filling \<open>cj['ranges']\<close>.
\<close>

fun ranges_loop ::
  "meta \<Rightarrow> Dataset \<Rightarrow> string list \<Rightarrow> (string \<times> cj_range) list \<Rightarrow> exn + (string \<times> cj_range) list" where
  "ranges_loop metadata ds [] rs = Inr rs"
| "ranges_loop metadata ds (key # rest) rs =
     (case dataset_variable ds key of None \<Rightarrow> Inl (KeyError key) | Some da \<Rightarrow>
     (case dict_get metadata ''height'' of Inl err \<Rightarrow> Inl err | Inr h \<Rightarrow>
     (case dict_get metadata ''width'' of Inl err \<Rightarrow> Inl err | Inr w \<Rightarrow>
     (case da_values da of Inl err \<Rightarrow> Inl err | Inr vals \<Rightarrow>
        ranges_loop metadata ds rest
          (dict_set rs key
             \<lparr> rg_type = ''NdArray'',
               rg_dataType = da_dtype da,
               rg_axisNames = [''y'', ''x''],
               rg_shape = [h, w],
               rg_values = flatten vals \<rparr>)))))"

definition gen_covjson :: "provider \<Rightarrow> meta \<Rightarrow> Dataset \<Rightarrow> exn + covjson" where
  "gen_covjson self metadata dataset =
     (case dict_get metadata ''bbox'' of Inl err \<Rightarrow> Inl err | Inr bb \<Rightarrow>
     (case unpack4 bb of Inl err \<Rightarrow> Inl err | Inr (minx, miny, maxx, maxy) \<Rightarrow>
     (case dict_get metadata ''width'' of Inl err \<Rightarrow> Inl err | Inr w \<Rightarrow>
     (case dict_get metadata ''height'' of Inl err \<Rightarrow> Inl err | Inr h \<Rightarrow>
     (case dict_get metadata ''bands'' of Inl err \<Rightarrow> Inl err | Inr bands_select \<Rightarrow>
     (case iter_metaval bands_select of Inl err \<Rightarrow> Inl err | Inr bss \<Rightarrow>
     (case parameters_loop dataset bss [] of Inl err \<Rightarrow> Inl err | Inr parameters \<Rightarrow>
     (case ranges_loop metadata dataset (dict_keys parameters) [] of
        Inl err \<Rightarrow>
          (if err = IndexError then Inl (ProviderQueryError ''Invalid query parameter'')
           else Inl err)
      | Inr ranges \<Rightarrow>
          Inr \<lparr> cj_type = ''Coverage'',
                cj_domain_type = ''Domain'',
                cj_domain_domainType = ''Grid'',
                cj_axes_x = \<lparr> ax_start = minx, ax_stop = maxx, ax_num = w \<rparr>,
                cj_axes_y = \<lparr> ax_start = miny, ax_stop = maxy, ax_num = h \<rparr>,
                cj_referencing_coordinates = [''x'', ''y''],
                cj_referencing_system_type = cp_crs_type (p_coverage_properties self),
                cj_referencing_system_id = cp_crs_uri (p_coverage_properties self),
                cj_parameters = parameters,
                cj_ranges = ranges \<rparr>))))))))"

subsection \<open>\<open>Dataset.squeeze\<close> and \<open>numpy.stack\<close>\<close>

fun axis_of :: "string \<Rightarrow> string list \<Rightarrow> nat option" where
  "axis_of d [] = None"
| "axis_of d (x # xs) = (if x = d then Some 0 else map_option Suc (axis_of d xs))"

text \<open>Index \<open>0\<close> along axis \<open>k\<close>, which removes that axis.\<close>

fun isel0 :: "nat \<Rightarrow> ndarray \<Rightarrow> ndarray" where
  "isel0 0 (Arr (a # as)) = a"
| "isel0 (Suc k) (Arr as) = Arr (map (isel0 k) as)"
| "isel0 k a = a"

definition squeeze_var :: "DataArray \<Rightarrow> DataArray" where
  "squeeze_var da =
     (case axis_of ''time'' (da_dims da) of
        None \<Rightarrow> da
      | Some k \<Rightarrow>
          da \<lparr> da_dims := filter (\<lambda>d. d \<noteq> ''time'') (da_dims da),
               da_values := (case da_values da of Inl err \<Rightarrow> Inl err | Inr a \<Rightarrow> Inr (isel0 k a)) \<rparr>)"

text \<open>
  \<open>dataset.squeeze(dim='time', drop=True)\<close>, after the xarray documentation: the
  dimension must exist; if its length is greater than one the call raises
  \<open>ValueError\<close>; otherwise index \<open>0\<close> is selected along it in every variable that has
  it, and a coordinate that is left without any dimension by this is dropped.
\<close>

definition squeeze_coord :: "DataArray \<Rightarrow> DataArray option" where
  "squeeze_coord c =
     (if ''time'' \<in> set (da_dims c) \<and> filter (\<lambda>d. d \<noteq> ''time'') (da_dims c) = [] then None
      else Some (squeeze_var c))"

definition Dataset_squeeze_time :: "Dataset \<Rightarrow> exn + Dataset" where
  "Dataset_squeeze_time ds =
     (case map_of (ds_sizes ds) ''time'' of
        None \<Rightarrow> Inl (KeyError ''time'')
      | Some n \<Rightarrow>
          if n > 1
          then Inl (ValueError ''cannot select a dimension to squeeze out which has length greater than one'')
          else if n = 0 then Inl IndexError
          else Inr (ds \<lparr> ds_coords :=
                           (\<lambda>name. case ds_coords ds name of
                                       None \<Rightarrow> None | Some c \<Rightarrow> squeeze_coord c),
                         ds_sizes := filter (\<lambda>kv. fst kv \<noteq> ''time'') (ds_sizes ds),
                         ds_data_vars := map (\<lambda>kv. (fst kv, squeeze_var (snd kv))) (ds_data_vars ds) \<rparr>))"

text \<open>\<open>[dataset.squeeze(dim='time', drop=True)[bs].values for bs in bands]\<close>\<close>

fun band_values :: "Dataset \<Rightarrow> string list \<Rightarrow> exn + ndarray list" where
  "band_values ds [] = Inr []"
| "band_values ds (bs # rest) =
     (case Dataset_squeeze_time ds of Inl err \<Rightarrow> Inl err | Inr sq \<Rightarrow>
     (case dataset_variable sq bs of None \<Rightarrow> Inl (KeyError bs) | Some da \<Rightarrow>
     (case da_values da of Inl err \<Rightarrow> Inl err | Inr v \<Rightarrow>
     (case band_values ds rest of Inl err \<Rightarrow> Inl err | Inr vs \<Rightarrow> Inr (v # vs)))))"

text \<open>
  \<open>np.stack(arrays, axis=0)\<close>: at least one array, all of one shape; the result has
  the list index as its first axis.
\<close>

definition np_stack :: "ndarray list \<Rightarrow> exn + ndarray" where
  "np_stack arrays =
     (case arrays of
        [] \<Rightarrow> Inl (ValueError ''need at least one array to stack'')
      | a # as \<Rightarrow>
          if list_all (\<lambda>x. np_shape x = np_shape a) as then Inr (Arr arrays)
          else Inl (ValueError ''all input arrays must have the same shape''))"

subsection \<open>\<open>query\<close>\<close>

text \<open>
  The calls a query makes to the load and encode capabilities are recorded, in order, in
  a list of events that is returned with the result.
\<close>

datatype event =
    Load string load_params
  | MemfileOpen meta
  | DestWrite ndarray
  | ToNetcdf Dataset

datatype response = CoverageJSON covjson | GeoTIFF bytes | NetCDF bytes

text \<open>
  Lines 134 to 165: the window \<open>(minx, miny, maxx, maxy)\<close> after the spatial subset,
  starting from the full extent of the collection (line 119).
\<close>

definition spatial_subset ::
  "env \<Rightarrow> provider \<Rightarrow> (string \<rightharpoonup> real list) \<Rightarrow> real list \<Rightarrow> exn + (real \<times> real \<times> real \<times> real)" where
  "spatial_subset e self subsets bbox =
     (let cp = p_coverage_properties self;
          full = cp_bbox cp
      in
      if length bbox > 0 then
        (case bbox of
           [minxbox, minybox, maxxbox, maxybox] \<Rightarrow>
             (case CRS_from_epsg e (Some 4326) of Inl err \<Rightarrow> Inl err | Inr crs_src \<Rightarrow>
             (case CRS_from_epsg e (crs_to_epsg (p_crs_obj self)) of Inl err \<Rightarrow> Inl err | Inr crs_dest \<Rightarrow>
                if crs_src = crs_dest then Inr full
                else
                  (case env_Transformer e crs_src crs_dest of Inl err \<Rightarrow> Inl err | Inr t \<Rightarrow>
                     let lo = t (minxbox, minybox);
                         hi = t (maxxbox, maxybox)
                     in Inr (fst lo, snd lo, fst hi, snd hi))))
         | _ \<Rightarrow> Inl (ValueError ''unpack''))
      else
        (case (subsets (cp_x_axis_label cp), subsets (cp_y_axis_label cp)) of
           (Some xr, Some yr) \<Rightarrow>
             (case index xr 0 of Inl err \<Rightarrow> Inl err | Inr minx \<Rightarrow>
             (case index xr 1 of Inl err \<Rightarrow> Inl err | Inr maxx \<Rightarrow>
             (case index yr 0 of Inl err \<Rightarrow> Inl err | Inr miny \<Rightarrow>
             (case index yr 1 of Inl err \<Rightarrow> Inl err | Inr maxy \<Rightarrow>
                Inr (minx, miny, maxx, maxy)))))
         | _ \<Rightarrow> Inr full))"

text \<open>Lines 225 to 245: the GeoTIFF branch.\<close>

definition query_geotiff ::
  "env \<Rightarrow> provider \<Rightarrow> meta \<Rightarrow> string list \<Rightarrow> Dataset \<Rightarrow> event list \<Rightarrow> (exn + response) \<times> event list" where
  "query_geotiff e self out_meta bands dataset ev =
     (let m1 = dict_set out_meta ''driver'' (MStr ''GTiff'');
          m2 = dict_set m1 ''crs'' (case crs_to_epsg (p_crs_obj self) of None \<Rightarrow> MNone | Some n \<Rightarrow> MInt n)
      in
      (case index (p_measurement_properties self) 0 of Inl err \<Rightarrow> (Inl err, ev) | Inr m0 \<Rightarrow>
      let m3 = dict_set m2 ''dtype'' (MStr (m_dtype m0));
          m4 = dict_set m3 ''nodata'' (MNum (m_nodata m0));
          m5 = dict_set m4 ''count'' (MInt (int (length bands)));
          t = cp_transform (p_coverage_properties self)
      in
      (case index t 0 of Inl err \<Rightarrow> (Inl err, ev) | Inr t0 \<Rightarrow>
      (case index t 1 of Inl err \<Rightarrow> (Inl err, ev) | Inr t1 \<Rightarrow>
      (case index t 2 of Inl err \<Rightarrow> (Inl err, ev) | Inr t2 \<Rightarrow>
      (case index t 3 of Inl err \<Rightarrow> (Inl err, ev) | Inr t3 \<Rightarrow>
      (case index t 4 of Inl err \<Rightarrow> (Inl err, ev) | Inr t4 \<Rightarrow>
      (case index t 5 of Inl err \<Rightarrow> (Inl err, ev) | Inr t5 \<Rightarrow>
      let m6 = dict_set m5 ''transform'' (MAffine t0 t1 t2 t3 t4 t5) in
      (case env_memfile_open e m6 of Inl err \<Rightarrow> (Inl err, ev @ [MemfileOpen m6]) | Inr u \<Rightarrow>
      (case band_values dataset bands of Inl err \<Rightarrow> (Inl err, ev @ [MemfileOpen m6]) | Inr arrays \<Rightarrow>
      (case np_stack arrays of Inl err \<Rightarrow> (Inl err, ev @ [MemfileOpen m6]) | Inr stacked \<Rightarrow>
      (case env_dest_write e m6 stacked of
         Inl err \<Rightarrow> (Inl err, ev @ [MemfileOpen m6, DestWrite stacked])
       | Inr b \<Rightarrow> (Inr (GeoTIFF b), ev @ [MemfileOpen m6, DestWrite stacked])))))))))))))"

text \<open>Lines 174 to 184: the keyword arguments for \<open>dc.load\<close>.\<close>

definition load_parameters ::
  "provider \<Rightarrow> string list \<Rightarrow> real \<times> real \<times> real \<times> real \<Rightarrow> load_params" where
  "load_parameters self bands window =
     (case window of (minx, miny, maxx, maxy) \<Rightarrow>
        \<lparr> lp_crs = ''epsg:'' @ format_epsg (crs_to_epsg (p_crs_obj self)),
          lp_align = (\<bar>cp_resy (p_coverage_properties self) / 2\<bar>,
                      \<bar>cp_resx (p_coverage_properties self) / 2\<bar>),
          lp_x = (minx, maxx),
          lp_y = (miny, maxy),
          lp_measurements = (if length bands > 0 then Some bands else None) \<rparr>)"

text \<open>Lines 211 to 219: \<open>out_meta\<close>, with the provider options copied over it.\<close>

definition out_metadata ::
  "provider \<Rightarrow> real \<times> real \<times> real \<times> real \<Rightarrow> string list \<Rightarrow> exn + meta" where
  "out_metadata self window bands =
     (case window of (minx, miny, maxx, maxy) \<Rightarrow>
     (case py_div (maxx - minx) (cp_resx (p_coverage_properties self)) of
        Inl err \<Rightarrow> Inl err | Inr w \<Rightarrow>
     (case py_div (maxy - miny) (cp_resy (p_coverage_properties self)) of
        Inl err \<Rightarrow> Inl err | Inr h \<Rightarrow>
      let out_meta =
            [(''bbox'', MNums [minx, miny, maxx, maxy]),
             (''width'', MNum \<bar>w\<bar>),
             (''height'', MNum \<bar>h\<bar>),
             (''bands'', MStrs bands)]
      in
      (case p_options self of
         None \<Rightarrow> Inr out_meta
       | Some opts \<Rightarrow> Inr (fold (\<lambda>kv m. dict_set m (fst kv) (snd kv)) opts out_meta)))))"

text \<open>
  The whole method. The parameter \<open>format_\<close> is \<open>fmt\<close>; \<open>datetime_\<close> and
  \<open>kwargs\<close> are not read by the source. The statements that only log (lines 116,
  121 and 122) and the branch under \<open>reproj = False\<close>, which never runs, are left out.
\<close>

definition query ::
  "env \<Rightarrow> provider \<Rightarrow> string list \<Rightarrow> (string \<rightharpoonup> real list) \<Rightarrow> real list \<Rightarrow> string \<Rightarrow>
   (exn + response) \<times> event list" where
  "query e self range_subset subsets bbox fmt =
     (let bands = range_subset;
          cp = p_coverage_properties self
      in
      if subsets (cp_x_axis_label cp) \<noteq> None \<and> subsets (cp_y_axis_label cp) \<noteq> None
         \<and> length bbox > 0
      then (Inl (ProviderQueryError ''bbox and subsetting by coordinates are exclusive''), [])
      else
      (case spatial_subset e self subsets bbox of
         Inl err \<Rightarrow> (Inl err, [])
       | Inr window \<Rightarrow>
      let params = load_parameters self bands window;
          ev = [Load (p_product_name self) params]
      in
      (case dc_load (p_dc self) (p_product_name self) params of
         Inl err \<Rightarrow> (Inl err, ev)
       | Inr loaded \<Rightarrow>
      (case time_attrs_pop_units loaded of
         Inl err \<Rightarrow> (Inl err, ev)
       | Inr dataset \<Rightarrow>
      let bands' = (if length bands = 0 then dict_keys (ds_data_vars dataset) else bands)
      in
      (case out_metadata self window bands' of
         Inl err \<Rightarrow> (Inl err, ev)
       | Inr out_meta \<Rightarrow>
      if fmt = ''json'' then
        (case gen_covjson self out_meta dataset of
           Inl err \<Rightarrow> (Inl err, ev)
         | Inr cj \<Rightarrow> (Inr (CoverageJSON cj), ev))
      else if lower fmt = ''geotiff'' then
        query_geotiff e self out_meta bands' dataset ev
      else
        (case env_to_netcdf e dataset of
           Inl err \<Rightarrow> (Inl err, ev @ [ToNetcdf dataset])
         | Inr b \<Rightarrow> (Inr (NetCDF b), ev @ [ToNetcdf dataset])))))))"

subsection \<open>Observations on responses\<close>

text \<open>The CoverageJSON document of a response, if it is one.\<close>

definition covjson_of :: "(exn + response) \<times> event list \<Rightarrow> covjson option" where
  "covjson_of r =
     (case fst r of
        Inr (CoverageJSON cj) \<Rightarrow> Some cj
      | _ \<Rightarrow> None)"

text \<open>
  What \<open>dataset.squeeze(dim='time', drop=True)[bs].values\<close> reads from one variable: its
  values with index \<open>0\<close> taken along the time axis.
\<close>

definition time_slice :: "DataArray \<Rightarrow> exn + ndarray" where
  "time_slice da = da_values (squeeze_var da)"

text \<open>
  A two-dimensional array given by its rows, and the property that the number of values
  of a \<open>ranges\<close> entry is the product of the two numbers of its \<open>shape\<close>.
\<close>

definition grid :: "real list list \<Rightarrow> ndarray" where
  "grid rows = Arr (map (\<lambda>row. Arr (map Scalar row)) rows)"

definition shape_product :: "metaval list \<Rightarrow> real option" where
  "shape_product sh =
     (case sh of
        [MNum h, MNum w] \<Rightarrow> Some (h * w)
      | _ \<Rightarrow> None)"

text \<open>
  The value that the provider options bind to a key (the last binding wins), or else the
  given default: what \<open>out_meta[key]\<close> holds after the options were copied over it.
\<close>

definition option_or :: "provider \<Rightarrow> string \<Rightarrow> metaval \<Rightarrow> metaval" where
  "option_or self key d =
     (case p_options self of
        None \<Rightarrow> d
      | Some opts \<Rightarrow> (case map_of (rev opts) key of None \<Rightarrow> d | Some v \<Rightarrow> v))"

definition values_match_shape :: "cj_range \<Rightarrow> bool" where
  "values_match_shape r = (shape_product (rg_shape r) = Some (real (length (rg_values r))))"

section \<open>An example catalog\<close>

text \<open>
  A small geographic product \<open>s2\<close> with two bands and two datasets whose bounds together
  cover \<open>(0, 30, 3, 32)\<close> at a resolution of one degree: a grid of two rows and three
  columns. The theorems below are instantiated on it.
\<close>

definition ex_wgs84 :: crs where
  "ex_wgs84 =
     \<lparr> crs_to_epsg = Some 4326, crs_projected = False,
       crs_units = [''degree'', ''degree''],
       crs_dimensions = [''latitude'', ''longitude''] \<rparr>"

definition ex_transform :: "real list" where
  "ex_transform = [1, 0, 0, 0, -1, 32, 0, 0, 1]"

definition ex_datasets :: "dataset_record list" where
  "ex_datasets =
     [\<lparr> dr_bounds = \<lparr> bb_left = 0, bb_bottom = 30, bb_right = 2, bb_top = 32 \<rparr>,
        dr_crs = Some ex_wgs84, dr_transform = Some ex_transform \<rparr>,
      \<lparr> dr_bounds = \<lparr> bb_left = 1, bb_bottom = 30, bb_right = 3, bb_top = 32 \<rparr>,
        dr_crs = Some ex_wgs84, dr_transform = Some ex_transform \<rparr>]"

definition ex_measurements :: measurement_table where
  "ex_measurements =
     \<lparr> mt_rows =
         [\<lparr> mr_name = ''B1'', mr_dtype = ''int16'', mr_nodata = -999, mr_units = ''1'',
            mr_aliases = [''band_1''] \<rparr>,
          \<lparr> mr_name = ''B2'', mr_dtype = ''float32'', mr_nodata = -1, mr_units = ''K'',
            mr_aliases = [] \<rparr>],
       mt_has_aliases = True \<rparr>"

definition ex_band :: "string \<Rightarrow> string \<Rightarrow> ndarray \<Rightarrow> DataArray" where
  "ex_band dtype unit vals =
     \<lparr> da_dims = [''time'', ''latitude'', ''longitude''],
       da_dtype = dtype,
       da_attrs = [(''units'', unit), (''nodata'', ''-999'')],
       da_values = Inr vals \<rparr>"

text \<open>
  The coordinates of the example grid at the given times: pixel centres of two rows and
  three columns.
\<close>

definition ex_coords :: "real list \<Rightarrow> string \<rightharpoonup> DataArray" where
  "ex_coords ts =
     [''time'' \<mapsto>
        \<lparr> da_dims = [''time''], da_dtype = ''datetime64[ns]'',
          da_attrs = [(''units'', ''seconds since 1970-01-01 00:00:00'')],
          da_values = Inr (Arr (map Scalar ts)) \<rparr>,
      ''latitude'' \<mapsto>
        \<lparr> da_dims = [''latitude''], da_dtype = ''float64'',
          da_attrs = [(''units'', ''degrees_north'')],
          da_values = Inr (Arr [Scalar (63 / 2), Scalar (61 / 2)]) \<rparr>,
      ''longitude'' \<mapsto>
        \<lparr> da_dims = [''longitude''], da_dtype = ''float64'',
          da_attrs = [(''units'', ''degrees_east'')],
          da_values = Inr (Arr [Scalar (1 / 2), Scalar (3 / 2), Scalar (5 / 2)]) \<rparr>]"

text \<open>One time slice of two rows and three columns for each band.\<close>

definition ex_dataset :: Dataset where
  "ex_dataset =
     \<lparr> ds_coords = ex_coords [0],
       ds_sizes = [(''time'', 1), (''latitude'', 2), (''longitude'', 3)],
       ds_data_vars =
         [(''B1'', ex_band ''int16'' ''1''
             (Arr [Arr [Arr [Scalar 1, Scalar 2, Scalar 3], Arr [Scalar 4, Scalar 5, Scalar 6]]])),
          (''B2'', ex_band ''float32'' ''K''
             (Arr [Arr [Arr [Scalar 7, Scalar 8, Scalar 9], Arr [Scalar 10, Scalar 11, Scalar 12]]]))] \<rparr>"

text \<open>The same grid at two times.\<close>

definition ex_dataset_two_times :: Dataset where
  "ex_dataset_two_times =
     \<lparr> ds_coords = ex_coords [0, 86400],
       ds_sizes = [(''time'', 2), (''latitude'', 2), (''longitude'', 3)],
       ds_data_vars =
         [(''B1'', ex_band ''int16'' ''1''
             (Arr [Arr [Arr [Scalar 1, Scalar 2, Scalar 3], Arr [Scalar 4, Scalar 5, Scalar 6]],
                   Arr [Arr [Scalar 1, Scalar 2, Scalar 3], Arr [Scalar 4, Scalar 5, Scalar 6]]]))] \<rparr>"

text \<open>A band whose attributes lack \<open>units\<close>.\<close>

definition ex_dataset_no_units :: Dataset where
  "ex_dataset_no_units =
     \<lparr> ds_coords = ex_coords [0],
       ds_sizes = [(''time'', 1), (''latitude'', 2), (''longitude'', 3)],
       ds_data_vars =
         [(''B1'', \<lparr> da_dims = [''time'', ''latitude'', ''longitude''], da_dtype = ''int16'',
                     da_attrs = [(''nodata'', ''-999'')],
                     da_values =
                       Inr (Arr [Arr [Arr [Scalar 1, Scalar 2, Scalar 3],
                                      Arr [Scalar 4, Scalar 5, Scalar 6]]]) \<rparr>)] \<rparr>"

text \<open>A band whose data cannot be read: \<open>.values\<close> raises \<open>IndexError\<close>.\<close>

definition ex_dataset_bad_read :: Dataset where
  "ex_dataset_bad_read =
     \<lparr> ds_coords = ex_coords [0],
       ds_sizes = [(''time'', 1), (''latitude'', 2), (''longitude'', 3)],
       ds_data_vars =
         [(''B1'', \<lparr> da_dims = [''time'', ''latitude'', ''longitude''], da_dtype = ''int16'',
                     da_attrs = [(''units'', ''1'')],
                     da_values = Inl IndexError \<rparr>)] \<rparr>"

text \<open>\<open>dc.load\<close> of the example: the given dataset, restricted to the requested bands.\<close>

definition ex_load :: "Dataset \<Rightarrow> string \<Rightarrow> load_params \<Rightarrow> exn + Dataset" where
  "ex_load ds product params =
     (case lp_measurements params of
        None \<Rightarrow> Inr ds
      | Some bands \<Rightarrow>
          Inr (ds \<lparr> ds_data_vars := filter (\<lambda>kv. fst kv \<in> set bands) (ds_data_vars ds) \<rparr>))"

definition ex_dc :: "Dataset \<Rightarrow> Datacube" where
  "ex_dc ds =
     \<lparr> dc_list_products =
         Inr [\<lparr> pr_name = ''other'', pr_resolution = None, pr_crs = None \<rparr>,
              \<lparr> pr_name = ''s2'', pr_resolution = Some (-1, 1), pr_crs = Some ''EPSG:4326'' \<rparr>],
       dc_get_by_name = (\<lambda>n. Inr (if n = ''s2'' then Some [''B1'', ''B2''] else None)),
       dc_find_datasets = (\<lambda>n. Inr (if n = ''s2'' then ex_datasets else [])),
       dc_list_measurements = Inr (\<lambda>n. if n = ''s2'' then Some ex_measurements else None),
       dc_load = ex_load ds \<rparr>"

text \<open>The smallest box that contains every box of a list (the empty list gives a point).\<close>

fun ex_bbox_union :: "BoundingBox list \<Rightarrow> BoundingBox" where
  "ex_bbox_union [] = \<lparr> bb_left = 0, bb_bottom = 0, bb_right = 0, bb_top = 0 \<rparr>"
| "ex_bbox_union [b] = b"
| "ex_bbox_union (b # bs) =
     (let u = ex_bbox_union bs in
      \<lparr> bb_left = min (bb_left b) (bb_left u), bb_bottom = min (bb_bottom b) (bb_bottom u),
        bb_right = max (bb_right b) (bb_right u), bb_top = max (bb_top b) (bb_top u) \<rparr>)"

definition ex_env :: "Dataset \<Rightarrow> env" where
  "ex_env ds =
     \<lparr> env_ODC_CONFIG_FILE = None,
       env_BaseProvider_init = (\<lambda>pdef. Inr (pd_options pdef)),
       env_Datacube = (\<lambda>config. Inr (ex_dc ds)),
       env_CRS_dc = (\<lambda>s. if s = ''EPSG:4326'' then Inr ex_wgs84 else Inl (LibraryError ''CRSError'')),
       env_bbox_union = ex_bbox_union,
       env_epsg_valid = (\<lambda>n. n = 4326 \<or> n = 32633),
       env_Transformer = (\<lambda>src dst. Inl (LibraryError ''ProjError'')),
       env_memfile_open = (\<lambda>m. Inr ()),
       env_dest_write = (\<lambda>m a. Inr ''II*''),
       env_to_netcdf = (\<lambda>d. Inr ''CDF'') \<rparr>"

definition ex_provider_def :: "meta option \<Rightarrow> provider_def" where
  "ex_provider_def options =
     \<lparr> pd_product = Some ''s2'',
       pd_format = Some [(''name'', ''GeoTIFF''), (''mimetype'', ''image/tiff'')],
       pd_options = options \<rparr>"

definition ex_coverage_properties :: coverage_properties where
  "ex_coverage_properties =
     \<lparr> cp_bbox = (0, 30, 3, 32),
       cp_crs_uri = ''http://www.opengis.net/def/crs/OGC/1.3/CRS84'',
       cp_crs_type = ''GeographicCRS'',
       cp_bbox_units = ''deg'',
       cp_x_axis_label = ''Lon'',
       cp_y_axis_label = ''Lat'',
       cp_width = 3,
       cp_height = 2,
       cp_resx = 1,
       cp_resy = -1,
       cp_transform = ex_transform,
       cp_num_bands = 2,
       cp_axes = [''Lon'', ''Lat''] \<rparr>"

definition ex_measurement_properties :: "measurement list" where
  "ex_measurement_properties =
     [\<lparr> m_id = 1, m_name = ''B1'', m_dtype = ''int16'', m_nodata = -999, m_unit = ''1'',
        m_aliases = Some [''band_1''] \<rparr>,
      \<lparr> m_id = 2, m_name = ''B2'', m_dtype = ''float32'', m_nodata = -1, m_unit = ''K'',
        m_aliases = Some [] \<rparr>]"

text \<open>The provider that the constructor builds on the example catalog.\<close>

definition ex_provider :: "Dataset \<Rightarrow> meta option \<Rightarrow> provider" where
  "ex_provider ds options =
     \<lparr> p_options = options,
       p_dc = ex_dc ds,
       p_product_name = ''s2'',
       p_crs_obj = ex_wgs84,
       p_coverage_properties = ex_coverage_properties,
       p_measurement_properties = ex_measurement_properties,
       p_crs = ''http://www.opengis.net/def/crs/OGC/1.3/CRS84'',
       p_axes = [''Lon'', ''Lat''],
       p_num_bands = 2,
       p_fields = [''1'', ''2''],
       p_native_format = ''GeoTIFF'' \<rparr>"

section \<open>Auxiliary facts\<close>

lemma map_of_dict_set: "map_of (dict_set d k v) k' = (if k' = k then Some v else map_of d k')"
  by (induction d k v rule: dict_set.induct) auto

lemma dict_keys_dict_set: "set (dict_keys (dict_set d k v)) = insert k (set (dict_keys d))"
  by (induction d k v rule: dict_set.induct) (auto simp: dict_keys_def)

lemma collect_datasets_bounds:
  "collect_datasets ds = Inr rs \<Longrightarrow> map (\<lambda>(b, c, rx, ry, t, dm). b) rs = map dr_bounds ds"
proof (induction ds arbitrary: rs)
  case Nil
  then show ?case by simp
next
  case (Cons d ds)
  then show ?case
    by (auto simp: dataset_metadata_def split: sum.splits option.splits)
qed

subsection \<open>The example catalog, evaluated\<close>

lemma ex_env_simps:
  "env_ODC_CONFIG_FILE (ex_env ds) = None"
  "env_BaseProvider_init (ex_env ds) pdef = Inr (pd_options pdef)"
  "env_Datacube (ex_env ds) config = Inr (ex_dc ds)"
  "env_memfile_open (ex_env ds) m = Inr ()"
  "env_dest_write (ex_env ds) m a = Inr ''II*''"
  "env_to_netcdf (ex_env ds) d = Inr ''CDF''"
  "env_epsg_valid (ex_env ds) n = (n = 4326 \<or> n = 32633)"
  by (simp_all add: ex_env_def)

lemma ex_get_coverage_properties:
  "get_coverage_properties (ex_env ds) (ex_dc ds) ''s2'' = Inr (ex_coverage_properties, ex_wgs84)"
  by (simp add: ex_env_def ex_dc_def get_coverage_properties_def index_def ex_datasets_def
      dataset_metadata_def ex_transform_def ex_wgs84_def py_div_def ex_coverage_properties_def Let_def)

lemma ex_get_measurement_properties:
  "get_measurement_properties (ex_dc ds) ''s2'' = Inr ex_measurement_properties"
  by (simp add: ex_dc_def get_measurement_properties_def ex_measurements_def measurement_of_row_def
      ex_measurement_properties_def upt_rec)

lemma ex_p_product_name: "p_product_name (ex_provider ds options) = ''s2''"
  by (simp add: ex_provider_def)

lemmas ex_defs = ex_provider_def ex_coverage_properties_def ex_measurement_properties_def
  ex_wgs84_def ex_transform_def ex_dc_def ex_load_def ex_dataset_def ex_band_def ex_coords_def

lemmas query_defs = query_def spatial_subset_def load_parameters_def out_metadata_def
  gen_covjson_def query_geotiff_def CRS_from_epsg_def py_div_def index_def dict_get_def dict_keys_def
  unpack4_def dataset_getitem_def format_epsg_def str_int_def str_nat.simps digit_char_def
  lower_def lower_char_def Dataset_squeeze_time_def squeeze_var_def np_stack_def Let_def
  dataset_variable_def time_attrs_pop_units_def pop_units_def squeeze_coord_def

subsection \<open>The variables of a dataset\<close>

lemma pop_units_simps [simp]:
  "da_values (pop_units da) = da_values da"
  "da_dims (pop_units da) = da_dims da"
  "da_dtype (pop_units da) = da_dtype da"
  by (simp_all add: pop_units_def)

lemma dataset_variable_data_var:
  "map_of (ds_data_vars ds) b = Some da \<Longrightarrow> dataset_variable ds b = Some da"
  by (simp add: dataset_variable_def)

lemma map_of_map_at_key:
  "map_of (map (\<lambda>kv. if fst kv = t then (fst kv, g (snd kv)) else kv) xs) k
     = (if k = t then map_option g (map_of xs k) else map_of xs k)"
  by (induction xs) auto

lemma map_fst_map_at_key:
  "map fst (map (\<lambda>kv. if fst kv = t then (fst kv, g (snd kv)) else kv) xs) = map fst xs"
  by (induction xs) auto

lemma time_attrs_pop_units_sizes:
  "time_attrs_pop_units loaded = Inr dataset \<Longrightarrow> ds_sizes dataset = ds_sizes loaded"
  by (auto simp: time_attrs_pop_units_def split: option.splits)

lemma time_attrs_pop_units_keys:
  "time_attrs_pop_units loaded = Inr dataset \<Longrightarrow>
   dict_keys (ds_data_vars dataset) = dict_keys (ds_data_vars loaded)"
  by (auto simp: time_attrs_pop_units_def dict_keys_def map_fst_map_at_key split: option.splits)

lemma time_attrs_pop_units_variable:
  assumes "time_attrs_pop_units loaded = Inr dataset"
  shows "dataset_variable dataset k =
           (if k = ''time'' then map_option pop_units (dataset_variable loaded k)
            else dataset_variable loaded k)"
  using assms
  by (auto simp: time_attrs_pop_units_def dataset_variable_def map_of_map_at_key
           split: option.splits)

lemma time_attrs_pop_units_values:
  assumes "time_attrs_pop_units loaded = Inr dataset" and "dataset_variable dataset k = Some da"
  shows "\<exists>da0. dataset_variable loaded k = Some da0 \<and> da_values da0 = da_values da
           \<and> da_dims da0 = da_dims da \<and> da_dtype da0 = da_dtype da"
  using assms(2) unfolding time_attrs_pop_units_variable [OF assms(1)]
  by (auto split: if_splits)

subsection \<open>The GeoTIFF branch\<close>

lemma query_geotiff_Inr:
  assumes "query_geotiff e self m bands ds ev = (Inr out, ev')"
  shows "\<exists>b m' a. out = GeoTIFF b \<and> ev' = ev @ [MemfileOpen m', DestWrite a]
           \<and> env_dest_write e m' a = Inr b"
  using assms
  by (auto simp: query_geotiff_def Let_def split: sum.splits)

lemma query_geotiff_meta:
  assumes "query_geotiff e self om bands ds ev = (res, ev')"
    and "MemfileOpen m \<in> set ev'" and "MemfileOpen m \<notin> set ev"
  shows "\<exists>m0 rest. p_measurement_properties self = m0 # rest
           \<and> map_of m ''dtype'' = Some (MStr (m_dtype m0))
           \<and> map_of m ''nodata'' = Some (MNum (m_nodata m0))
           \<and> map_of m ''count'' = Some (MInt (int (length bands)))
           \<and> 6 \<le> length (cp_transform (p_coverage_properties self))
           \<and> map_of m ''transform'' =
               Some (MAffine (cp_transform (p_coverage_properties self) ! 0)
                             (cp_transform (p_coverage_properties self) ! 1)
                             (cp_transform (p_coverage_properties self) ! 2)
                             (cp_transform (p_coverage_properties self) ! 3)
                             (cp_transform (p_coverage_properties self) ! 4)
                             (cp_transform (p_coverage_properties self) ! 5))"
  using assms
  by (auto simp: query_geotiff_def Let_def index_def map_of_dict_set neq_Nil_conv
           split: sum.splits if_splits)

subsection \<open>The spatial subset\<close>

lemma spatial_subset_same_crs:
  assumes "crs_to_epsg (p_crs_obj self) = Some 4326" and "env_epsg_valid e 4326"
  shows "spatial_subset e self subsets [a, b, c, d] = Inr (cp_bbox (p_coverage_properties self))"
  using assms by (simp add: spatial_subset_def CRS_from_epsg_def Let_def)

subsection \<open>The CoverageJSON encoder\<close>

lemma dict_keys_dict_set_new:
  "k \<notin> set (dict_keys d) \<Longrightarrow> dict_keys (dict_set d k v) = dict_keys d @ [k]"
  by (induction d k v rule: dict_set.induct) (auto simp: dict_keys_def)

lemma fst_set_dict_set: "fst ` set (dict_set d k v) = insert k (fst ` set d)"
  using dict_keys_dict_set [of d k v] by (simp add: dict_keys_def)

lemma distinct_dict_set:
  "distinct (dict_keys d) \<Longrightarrow> distinct (dict_keys (dict_set d k v))"
proof (induction d k v rule: dict_set.induct)
  case (1 k v)
  then show ?case by (simp add: dict_keys_def)
next
  case (2 k' v' d k v)
  have "k' \<notin> fst ` set (dict_set d k v)" if "k' \<noteq> k"
    using that 2(2) by (simp add: fst_set_dict_set dict_keys_def)
  with 2 show ?case by (auto simp: dict_keys_def)
qed

lemma map_of_fold_dict_set:
  "k \<notin> fst ` set opts \<Longrightarrow>
   map_of (fold (\<lambda>kv m. dict_set m (fst kv) (snd kv)) opts m) k = map_of m k"
  by (induction opts arbitrary: m) (auto simp: map_of_dict_set)

lemma parameters_loop_keys:
  "parameters_loop ds bss ps = Inr ps' \<Longrightarrow>
   MStr ` set (dict_keys ps') = MStr ` set (dict_keys ps) \<union> set bss"
proof (induction bss arbitrary: ps)
  case Nil
  then show ?case by simp
next
  case (Cons bs rest)
  then show ?case
    by (auto simp: dataset_getitem_def dict_keys_dict_set
             split: sum.splits metaval.splits prod.splits option.splits)
qed

lemma parameters_loop_distinct:
  "parameters_loop ds bss ps = Inr ps' \<Longrightarrow> distinct (dict_keys ps) \<Longrightarrow> distinct (dict_keys ps')"
proof (induction bss arbitrary: ps)
  case Nil
  then show ?case by simp
next
  case (Cons bs rest)
  then show ?case
    by (auto simp: distinct_dict_set split: sum.splits prod.splits)
qed

lemma ranges_loop_keys:
  "ranges_loop md ds keys rs = Inr rs' \<Longrightarrow> distinct (dict_keys rs @ keys) \<Longrightarrow>
   dict_keys rs' = dict_keys rs @ keys"
proof (induction keys arbitrary: rs)
  case Nil
  then show ?case by simp
next
  case (Cons key rest)
  then show ?case
    by (auto simp: dict_keys_dict_set_new split: sum.splits option.splits)
qed

lemma gen_covjson_keys:
  assumes "gen_covjson self md ds = Inr cj"
  shows "dict_keys (cj_ranges cj) = dict_keys (cj_parameters cj)
       \<and> (\<exists>v bss. map_of md ''bands'' = Some v \<and> iter_metaval v = Inr bss
              \<and> MStr ` set (dict_keys (cj_parameters cj)) = set bss)"
proof -
  from assms obtain v bss ps rs where
    b: "map_of md ''bands'' = Some v" and i: "iter_metaval v = Inr bss"
    and p: "parameters_loop ds bss [] = Inr ps"
    and r: "ranges_loop md ds (dict_keys ps) [] = Inr rs"
    and c: "cj_parameters cj = ps" "cj_ranges cj = rs"
    by (auto simp: gen_covjson_def dict_get_def split: sum.splits option.splits prod.splits if_splits)
  have d: "distinct (dict_keys ps)"
    using parameters_loop_distinct [OF p] by (simp add: dict_keys_def)
  have "dict_keys rs = dict_keys ps"
    using ranges_loop_keys [OF r] d by (simp add: dict_keys_def)
  moreover have "MStr ` set (dict_keys ps) = set bss"
    using parameters_loop_keys [OF p] by (simp add: dict_keys_def)
  ultimately show ?thesis using b i c by simp
qed

lemma out_metadata_bands:
  assumes "out_metadata self window bands = Inr om"
    and "case p_options self of None \<Rightarrow> True | Some opts \<Rightarrow> ''bands'' \<notin> fst ` set opts"
  shows "map_of om ''bands'' = Some (MStrs bands)"
  using assms
  by (auto simp: out_metadata_def Let_def map_of_fold_dict_set
           split: prod.splits sum.splits option.splits)

lemma parameters_loop_no_IndexError: "parameters_loop ds bss ps \<noteq> Inl IndexError"
  by (induction bss arbitrary: ps)
     (auto simp: dataset_getitem_def dict_get_def split: sum.splits metaval.splits option.splits prod.splits)

lemma iter_metaval_no_IndexError: "iter_metaval v \<noteq> Inl IndexError"
  by (cases v) simp_all

lemma gen_covjson_no_IndexError: "gen_covjson self md ds \<noteq> Inl IndexError"
  using parameters_loop_no_IndexError iter_metaval_no_IndexError
  by (auto simp: gen_covjson_def dict_get_def unpack4_def
           split: sum.splits option.splits prod.splits list.splits)

lemma parameters_loop_ok:
  assumes "\<forall>b\<in>set bands. \<exists>da. map_of (ds_data_vars ds) b = Some da
             \<and> map_of (da_attrs da) ''units'' \<noteq> None"
  shows "\<exists>ps'. parameters_loop ds (map MStr bands) ps = Inr ps'"
  using assms
proof (induction bands arbitrary: ps)
  case Nil
  then show ?case by simp
next
  case (Cons b bands)
  then show ?case
    by (auto simp: dataset_getitem_def dataset_variable_def dict_get_def)
qed

lemma ranges_loop_IndexError:
  assumes "map_of md ''height'' = Some h" and "map_of md ''width'' = Some w"
    and "\<forall>k\<in>set keys. \<exists>da. map_of (ds_data_vars ds) k = Some da
           \<and> (da_values da = Inl IndexError \<or> (\<exists>v. da_values da = Inr v))"
    and "\<exists>k\<in>set keys. \<exists>da. map_of (ds_data_vars ds) k = Some da \<and> da_values da = Inl IndexError"
  shows "ranges_loop md ds keys rs = Inl IndexError"
  using assms(3,4)
proof (induction keys arbitrary: rs)
  case Nil
  then show ?case by simp
next
  case (Cons k keys)
  from Cons.prems(1) obtain da where da: "map_of (ds_data_vars ds) k = Some da"
    and v: "da_values da = Inl IndexError \<or> (\<exists>v. da_values da = Inr v)"
    by auto
  show ?case
  proof (cases "da_values da")
    case (Inl err)
    with v da assms(1,2) show ?thesis by (simp add: dict_get_def dataset_variable_def)
  next
    case (Inr vals)
    with Cons.prems(2) da
    have "\<exists>k\<in>set keys. \<exists>da. map_of (ds_data_vars ds) k = Some da \<and> da_values da = Inl IndexError"
      by auto
    moreover from Cons.prems(1)
    have "\<forall>k\<in>set keys. \<exists>da. map_of (ds_data_vars ds) k = Some da
           \<and> (da_values da = Inl IndexError \<or> (\<exists>v. da_values da = Inr v))"
      by simp
    ultimately have "ranges_loop md ds keys rs' = Inl IndexError" for rs'
      by (rule Cons.IH [rotated])
    with Inr da assms(1,2) show ?thesis by (simp add: dict_get_def dataset_variable_def)
  qed
qed

subsection \<open>Squeezing the time dimension\<close>

lemma map_of_squeezed_vars:
  "map_of (map (\<lambda>kv. (fst kv, squeeze_var (snd kv))) vars) b = map_option squeeze_var (map_of vars b)"
  by (induction vars) auto

lemma band_values_many_times:
  assumes "map_of (ds_sizes ds) ''time'' = Some n" and "1 < n"
  shows "\<exists>msg. band_values ds bands = Inl (ValueError msg)
           \<or> (band_values ds bands = Inr [] \<and> np_stack [] = Inl (ValueError msg))"
  using assms by (cases bands) (simp_all add: Dataset_squeeze_time_def np_stack_def)

lemma time_slice_pop_units: "time_slice (pop_units da) = time_slice da"
  by (simp add: time_slice_def squeeze_var_def pop_units_def split: option.splits)

lemma squeezed_variable:
  assumes "Dataset_squeeze_time ds = Inr sq" and "dataset_variable sq b = Some da'"
  shows "\<exists>da. dataset_variable ds b = Some da \<and> da' = squeeze_var da"
  using assms
  by (auto simp: Dataset_squeeze_time_def dataset_variable_def map_of_squeezed_vars
        squeeze_coord_def split: option.splits if_splits)

lemma band_values_slices:
  assumes "band_values ds bands = Inr vs"
  shows "list_all2 (\<lambda>b v. \<exists>da. dataset_variable ds b = Some da \<and> time_slice da = Inr v) bands vs
       \<and> (bands \<noteq> [] \<longrightarrow> map_of (ds_sizes ds) ''time'' = Some 1)"
  using assms
proof (induction bands arbitrary: vs)
  case Nil
  then show ?case by simp
next
  case (Cons b bands)
  from Cons.prems obtain sq da' v vs' where
    sq: "Dataset_squeeze_time ds = Inr sq" and da': "dataset_variable sq b = Some da'"
    and v: "da_values da' = Inr v" and rest: "band_values ds bands = Inr vs'"
    and vs: "vs = v # vs'"
    by (auto split: sum.splits option.splits)
  from squeezed_variable [OF sq da'] v obtain da where
    "dataset_variable ds b = Some da" and "time_slice da = Inr v"
    by (auto simp: time_slice_def)
  moreover from sq have "map_of (ds_sizes ds) ''time'' = Some 1"
    by (auto simp: Dataset_squeeze_time_def split: option.splits if_splits)
  ultimately show ?case
    using Cons.IH [OF rest] vs by auto
qed

lemma np_stack_Inr: "np_stack vs = Inr a \<Longrightarrow> a = Arr vs \<and> vs \<noteq> []"
  by (auto simp: np_stack_def split: list.splits if_splits)

lemma query_geotiff_DestWrite:
  assumes "query_geotiff e self om bands ds ev0 = (res, ev)"
    and "DestWrite a \<in> set ev" and "DestWrite a \<notin> set ev0"
  shows "\<exists>vs. band_values ds bands = Inr vs \<and> np_stack vs = Inr a"
  using assms
  by (auto simp: query_geotiff_def Let_def split: sum.splits)

lemma query_geotiff_stack_error:
  assumes "query_geotiff e self om bands ds ev0 = (res, ev)"
    and "MemfileOpen m \<in> set ev" and "MemfileOpen m \<notin> set ev0"
    and "band_values ds bands = Inl err
         \<or> (\<exists>vs. band_values ds bands = Inr vs \<and> np_stack vs = Inl err)"
  shows "(\<exists>err'. res = Inl err') \<and> (env_memfile_open e m = Inr () \<longrightarrow> res = Inl err)
       \<and> (\<forall>a. DestWrite a \<in> set ev \<longrightarrow> DestWrite a \<in> set ev0)"
  using assms
  by (auto simp: query_geotiff_def Let_def split: sum.splits)

lemma query_reaches_geotiff:
  assumes "query e self range_subset subsets bbox fmt = (res, ev)"
    and "MemfileOpen m \<in> set ev"
  shows "\<exists>window loaded dataset om.
           dc_load (p_dc self) (p_product_name self) (load_parameters self range_subset window)
             = Inr loaded
           \<and> time_attrs_pop_units loaded = Inr dataset
           \<and> query_geotiff e self om
               (if range_subset = [] then dict_keys (ds_data_vars loaded) else range_subset)
               dataset
               [Load (p_product_name self) (load_parameters self range_subset window)] = (res, ev)"
proof -
  from assms obtain window loaded dataset om where
    ld: "dc_load (p_dc self) (p_product_name self) (load_parameters self range_subset window)
       = Inr loaded"
    and pop: "time_attrs_pop_units loaded = Inr dataset"
    and g: "query_geotiff e self om
           (if range_subset = [] then dict_keys (ds_data_vars dataset) else range_subset)
           dataset
           [Load (p_product_name self) (load_parameters self range_subset window)] = (res, ev)"
    by (auto simp: query_def Let_def split: if_splits sum.splits option.splits)
  from g have "query_geotiff e self om
           (if range_subset = [] then dict_keys (ds_data_vars loaded) else range_subset)
           dataset
           [Load (p_product_name self) (load_parameters self range_subset window)] = (res, ev)"
    by (simp only: time_attrs_pop_units_keys [OF pop])
  with ld pop show ?thesis by blast
qed

lemma query_returns_covjson:
  assumes "query e self range_subset subsets bbox fmt = (Inr (CoverageJSON cj), ev)"
  shows "\<exists>window loaded dataset om.
           dc_load (p_dc self) (p_product_name self) (load_parameters self range_subset window)
             = Inr loaded
           \<and> time_attrs_pop_units loaded = Inr dataset
           \<and> ev = [Load (p_product_name self) (load_parameters self range_subset window)]
           \<and> out_metadata self window
               (if range_subset = [] then dict_keys (ds_data_vars loaded) else range_subset)
             = Inr om
           \<and> gen_covjson self om dataset = Inr cj"
proof -
  from assms obtain window loaded dataset om where
    ld: "dc_load (p_dc self) (p_product_name self) (load_parameters self range_subset window)
       = Inr loaded"
    and pop: "time_attrs_pop_units loaded = Inr dataset"
    and ev: "ev = [Load (p_product_name self) (load_parameters self range_subset window)]"
    and om: "out_metadata self window
           (if range_subset = [] then dict_keys (ds_data_vars dataset) else range_subset)
         = Inr om"
    and g: "gen_covjson self om dataset = Inr cj"
    by (auto simp: query_def Let_def split: if_splits sum.splits option.splits
             dest!: query_geotiff_Inr)
  from om have "out_metadata self window
           (if range_subset = [] then dict_keys (ds_data_vars loaded) else range_subset)
         = Inr om"
    by (simp only: time_attrs_pop_units_keys [OF pop])
  with ld pop ev g show ?thesis by blast
qed

lemma query_geotiff_hd:
  "query_geotiff e self om bands ds (x # ev0) = (res, ev) \<Longrightarrow> hd ev = x"
  by (auto simp: query_geotiff_def Let_def split: sum.splits)

lemma ex_load_sizes:
  "dc_load (p_dc (ex_provider ds options)) n p = Inr loaded \<Longrightarrow> ds_sizes loaded = ds_sizes ds"
  by (auto simp: ex_provider_def ex_dc_def ex_load_def split: option.splits)

text \<open>
  A band that names a coordinate is encoded like any other variable: the request for
  \<open>longitude\<close> loads no data variable, and \<open>dataset['longitude']\<close> is the coordinate.
\<close>

lemma ex_coordinate_band:
  "map_option (map (\<lambda>kr. (fst kr, rg_values (snd kr))) \<circ> cj_ranges)
     (covjson_of (query (ex_env ex_dataset) (ex_provider ex_dataset None) [''longitude'']
        Map.empty [] ''json''))
     = Some [(''longitude'', [1 / 2, 3 / 2, 5 / 2])]"
  by (simp add: covjson_of_def query_defs ex_defs ex_env_simps)

subsection \<open>The entries of \<open>ranges\<close>\<close>

lemma flatten_grid: "flatten (grid rows) = concat rows"
  by (induction rows) (simp_all add: grid_def comp_def)

lemma flatten_time_grid: "flatten (Arr [grid rows]) = concat rows"
  by (simp add: flatten_grid)

lemma length_concat_rows:
  "\<forall>row\<in>set rows. length row = w \<Longrightarrow> length (concat rows) = length rows * w"
  by (induction rows) simp_all

lemma ranges_loop_entry:
  assumes "ranges_loop md ds keys rs = Inr rs'" and "map_of rs' band = Some r"
  shows "map_of rs band = Some r
       \<or> (\<exists>da arr h w. dataset_variable ds band = Some da \<and> da_values da = Inr arr
              \<and> map_of md ''height'' = Some h \<and> map_of md ''width'' = Some w
              \<and> rg_shape r = [h, w] \<and> rg_values r = flatten arr \<and> rg_dataType r = da_dtype da
              \<and> rg_axisNames r = [''y'', ''x''])"
  using assms
proof (induction keys arbitrary: rs)
  case Nil
  then show ?case by simp
next
  case (Cons key keys)
  from Cons.prems(1) obtain da h w arr where
    da: "dataset_variable ds key = Some da" and h: "map_of md ''height'' = Some h"
    and w: "map_of md ''width'' = Some w" and arr: "da_values da = Inr arr"
    and rest: "ranges_loop md ds keys
                 (dict_set rs key \<lparr> rg_type = ''NdArray'', rg_dataType = da_dtype da,
                     rg_axisNames = [''y'', ''x''], rg_shape = [h, w], rg_values = flatten arr \<rparr>)
               = Inr rs'"
    by (auto simp: dict_get_def split: sum.splits option.splits)
  from Cons.IH [OF rest Cons.prems(2)] da h w arr show ?case
    by (auto simp: map_of_dict_set split: if_splits)
qed

lemma gen_covjson_entry:
  assumes "gen_covjson self md ds = Inr cj" and "map_of (cj_ranges cj) band = Some r"
  shows "\<exists>da arr h w. dataset_variable ds band = Some da \<and> da_values da = Inr arr
              \<and> map_of md ''height'' = Some h \<and> map_of md ''width'' = Some w
              \<and> rg_shape r = [h, w] \<and> rg_values r = flatten arr
              \<and> rg_dataType r = da_dtype da \<and> rg_axisNames r = [''y'', ''x'']"
proof -
  from assms(1) obtain ps :: "(string \<times> cj_parameter) list" where
    r: "ranges_loop md ds (dict_keys ps) [] = Inr (cj_ranges cj)"
    by (auto simp: gen_covjson_def split: sum.splits prod.splits if_splits)
  from ranges_loop_entry [OF r assms(2)] show ?thesis
    by auto
qed

subsection \<open>The metadata and the provider options\<close>

lemma map_of_fold_dict_set_rev:
  "map_of (fold (\<lambda>kv m. dict_set m (fst kv) (snd kv)) opts m) k
     = (case map_of (rev opts) k of None \<Rightarrow> map_of m k | Some v \<Rightarrow> Some v)"
  by (induction opts arbitrary: m)
     (auto simp: map_of_dict_set map_add_def split: option.splits)

lemma out_metadata_shape:
  assumes "out_metadata self (minx, miny, maxx, maxy) bands = Inr om"
  shows "cp_resx (p_coverage_properties self) \<noteq> 0 \<and> cp_resy (p_coverage_properties self) \<noteq> 0
       \<and> map_of om ''height''
           = Some (option_or self ''height''
                     (MNum \<bar>(maxy - miny) / cp_resy (p_coverage_properties self)\<bar>))
       \<and> map_of om ''width''
           = Some (option_or self ''width''
                     (MNum \<bar>(maxx - minx) / cp_resx (p_coverage_properties self)\<bar>))"
  using assms
  by (auto simp: out_metadata_def Let_def py_div_def option_or_def map_of_fold_dict_set_rev
           split: sum.splits option.splits if_splits)

section \<open>Properties of the constructor\<close>

text \<open>
  Claim C6. Whenever \<open>_get_coverage_properties\<close> returns a descriptor, its \<open>bbox\<close> is
  \<open>[left, bottom, right, top]\<close> of the union \<open>b\<close> of the bounds of all datasets of the
  product, its resolutions are not zero, and \<open>width = |(b.right - b.left) / resx|\<close> and
  \<open>height = |(b.top - b.bottom) / resy|\<close> hold with the resolved \<open>resx\<close> and \<open>resy\<close>.
\<close>

theorem C6_width_height_from_extent:
  assumes "get_coverage_properties e dc name = Inr (cp, c)"
  shows "\<exists>datasets b. dc_find_datasets dc name = Inr datasets
           \<and> b = env_bbox_union e (map dr_bounds datasets)
           \<and> cp_bbox cp = (bb_left b, bb_bottom b, bb_right b, bb_top b)
           \<and> cp_resx cp \<noteq> 0 \<and> cp_resy cp \<noteq> 0
           \<and> cp_width cp = \<bar>(bb_right b - bb_left b) / cp_resx cp\<bar>
           \<and> cp_height cp = \<bar>(bb_top b - bb_bottom b) / cp_resy cp\<bar>"
  using assms
  by (auto simp: get_coverage_properties_def Let_def py_div_def collect_datasets_bounds
           split: sum.splits option.splits if_splits)

text \<open>The example product: extent \<open>(0, 30, 3, 32)\<close>, three columns and two rows.\<close>

theorem C6_width_height_witness:
  "get_coverage_properties (ex_env ex_dataset) (ex_dc ex_dataset) ''s2''
     = Inr (ex_coverage_properties, ex_wgs84)
   \<and> cp_bbox ex_coverage_properties = (0, 30, 3, 32)
   \<and> cp_width ex_coverage_properties = \<bar>(3 - 0) / cp_resx ex_coverage_properties\<bar>
   \<and> cp_height ex_coverage_properties = \<bar>(32 - 30) / cp_resy ex_coverage_properties\<bar>"
proof -
  have h: "get_coverage_properties (ex_env ex_dataset) (ex_dc ex_dataset) ''s2''
             = Inr (ex_coverage_properties, ex_wgs84)"
    by (rule ex_get_coverage_properties)
  have d: "dc_find_datasets (ex_dc ex_dataset) ''s2'' = Inr ex_datasets"
    by (simp add: ex_dc_def)
  have u: "env_bbox_union (ex_env ex_dataset) (map dr_bounds ex_datasets)
             = \<lparr> bb_left = 0, bb_bottom = 30, bb_right = 3, bb_top = 32 \<rparr>"
    by (simp add: ex_env_def ex_datasets_def)
  show ?thesis
    using C6_width_height_from_extent [OF h] h by (simp add: d u)
qed

text \<open>
  Claim C9. Once the base class is initialised, the catalog handle exists and the product
  identifier is given, construction is all or nothing. If \<open>_get_coverage_properties\<close>
  raises, or \<open>_get_measurement_properties\<close> raises, or the derived field
  \<open>provider_def['format']['name']\<close> is missing, the constructor raises
  \<open>ProviderConnectionError\<close> wrapping that cause, and no provider object is returned.
  Otherwise the constructor returns the provider with every descriptor resolved. Nothing
  else can happen.
\<close>

theorem C9_construction_all_or_nothing:
  assumes base: "env_BaseProvider_init e pdef = Inr options"
    and conn: "env_Datacube e
                 (case env_ODC_CONFIG_FILE e of None \<Rightarrow> ODC_CONFIG_FILE_DEFAULT | Some f \<Rightarrow> f)
               = Inr dc"
    and prod: "pd_product pdef = Some name"
  shows "(\<forall>err. get_coverage_properties e dc name = Inl err
            \<longrightarrow> init e pdef = Inl (ProviderConnectionError err))
       \<and> (\<forall>err r. get_coverage_properties e dc name = Inr r
              \<and> get_measurement_properties dc name = Inl err
            \<longrightarrow> init e pdef = Inl (ProviderConnectionError err))
       \<and> (\<forall>r mp. get_coverage_properties e dc name = Inr r
              \<and> get_measurement_properties dc name = Inr mp
              \<and> pd_format pdef = None
            \<longrightarrow> init e pdef = Inl (ProviderConnectionError (KeyError ''format'')))
       \<and> (\<forall>r mp f. get_coverage_properties e dc name = Inr r
              \<and> get_measurement_properties dc name = Inr mp
              \<and> pd_format pdef = Some f \<and> map_of f ''name'' = None
            \<longrightarrow> init e pdef = Inl (ProviderConnectionError (KeyError ''name'')))
       \<and> (\<forall>cp c mp f nf. get_coverage_properties e dc name = Inr (cp, c)
              \<and> get_measurement_properties dc name = Inr mp
              \<and> pd_format pdef = Some f \<and> map_of f ''name'' = Some nf
            \<longrightarrow> init e pdef =
                  Inr \<lparr> p_options = options, p_dc = dc, p_product_name = name, p_crs_obj = c,
                        p_coverage_properties = cp, p_measurement_properties = mp,
                        p_crs = cp_crs_uri cp, p_axes = cp_axes cp,
                        p_num_bands = cp_num_bands cp,
                        p_fields = map str_nat [1 ..< cp_num_bands cp + 1],
                        p_native_format = nf \<rparr>)
       \<and> ((\<exists>err. init e pdef = Inl (ProviderConnectionError err))
          \<or> (\<exists>self cp c mp. init e pdef = Inr self
                \<and> get_coverage_properties e dc name = Inr (cp, c)
                \<and> get_measurement_properties dc name = Inr mp
                \<and> p_coverage_properties self = cp \<and> p_crs_obj self = c
                \<and> p_measurement_properties self = mp))"
proof -
  have i: "init e pdef =
      (case init_try e options dc name pdef of
         Inl err \<Rightarrow> Inl (ProviderConnectionError err) | Inr self \<Rightarrow> Inr self)"
    using base conn prod by (simp add: init_def)
  show ?thesis
    unfolding i
    by (auto simp: init_try_def dict_get_def split: sum.splits option.splits prod.splits)
qed

text \<open>
  On the example catalog the constructor returns the example provider; for a product
  that the catalog does not list, \<open>iloc[0]\<close> raises and the constructor wraps it.
\<close>

theorem C9_construction_witness:
  "env_BaseProvider_init (ex_env ex_dataset) (ex_provider_def None) = Inr None
   \<and> env_Datacube (ex_env ex_dataset)
        (case env_ODC_CONFIG_FILE (ex_env ex_dataset) of
           None \<Rightarrow> ODC_CONFIG_FILE_DEFAULT | Some f \<Rightarrow> f)
       = Inr (ex_dc ex_dataset)
   \<and> pd_product (ex_provider_def None) = Some ''s2''
   \<and> get_coverage_properties (ex_env ex_dataset) (ex_dc ex_dataset) ''s2''
       = Inr (ex_coverage_properties, ex_wgs84)
   \<and> get_measurement_properties (ex_dc ex_dataset) ''s2'' = Inr ex_measurement_properties
   \<and> init (ex_env ex_dataset) (ex_provider_def None) = Inr (ex_provider ex_dataset None)
   \<and> get_coverage_properties (ex_env ex_dataset) (ex_dc ex_dataset) ''missing'' = Inl IndexError
   \<and> init (ex_env ex_dataset) ((ex_provider_def None) \<lparr> pd_product := Some ''missing'' \<rparr>)
       = Inl (ProviderConnectionError IndexError)"
proof -
  have b: "env_BaseProvider_init (ex_env ex_dataset) (ex_provider_def None) = Inr None"
    by (simp add: ex_env_def ex_provider_def_def)
  have c: "env_Datacube (ex_env ex_dataset)
        (case env_ODC_CONFIG_FILE (ex_env ex_dataset) of
           None \<Rightarrow> ODC_CONFIG_FILE_DEFAULT | Some f \<Rightarrow> f)
       = Inr (ex_dc ex_dataset)"
    by (simp add: ex_env_def)
  have p: "pd_product (ex_provider_def None) = Some ''s2''"
    by (simp add: ex_provider_def_def)
  have f: "pd_format (ex_provider_def None)
             = Some [(''name'', ''GeoTIFF''), (''mimetype'', ''image/tiff'')]"
    by (simp add: ex_provider_def_def)
  have n: "map_of [(''name'', ''GeoTIFF''), (''mimetype'', ''image/tiff'')] ''name''
             = Some ''GeoTIFF''"
    by simp
  have b': "env_BaseProvider_init (ex_env ex_dataset)
              ((ex_provider_def None) \<lparr> pd_product := Some ''missing'' \<rparr>) = Inr None"
    by (simp add: ex_env_def ex_provider_def_def)
  have p': "pd_product ((ex_provider_def None) \<lparr> pd_product := Some ''missing'' \<rparr>)
              = Some ''missing''"
    by simp
  have m: "get_coverage_properties (ex_env ex_dataset) (ex_dc ex_dataset) ''missing''
             = Inl IndexError"
    by (simp add: get_coverage_properties_def ex_dc_def index_def)
  have ok: "init (ex_env ex_dataset) (ex_provider_def None) = Inr (ex_provider ex_dataset None)"
    using C9_construction_all_or_nothing [OF b c p] ex_get_coverage_properties [of ex_dataset]
      ex_get_measurement_properties [of ex_dataset] f n
    by (simp add: ex_provider_def ex_coverage_properties_def upt_rec str_nat.simps digit_char_def)
  have bad: "init (ex_env ex_dataset) ((ex_provider_def None) \<lparr> pd_product := Some ''missing'' \<rparr>)
       = Inl (ProviderConnectionError IndexError)"
    using C9_construction_all_or_nothing [OF b' c p'] m by simp
  show ?thesis
    by (intro conjI b c p ex_get_coverage_properties ex_get_measurement_properties ok m bad)
qed

section \<open>Properties of the query\<close>

text \<open>
  Claim C2. When the subsets mapping has entries for both the x axis label and the y axis
  label of the descriptor and the bbox list is non-empty, the query raises
  \<open>ProviderQueryError\<close>, whatever the numbers, the bands and the format are, and the list
  of load and encode events is empty: the error is raised before any of them runs.
\<close>

theorem C2_bbox_and_axis_subsets_exclusive:
  assumes "subsets (cp_x_axis_label (p_coverage_properties self)) \<noteq> None"
    and "subsets (cp_y_axis_label (p_coverage_properties self)) \<noteq> None"
    and "bbox \<noteq> []"
  shows "query e self range_subset subsets bbox fmt =
           (Inl (ProviderQueryError ''bbox and subsetting by coordinates are exclusive''), [])"
  using assms by (simp add: query_def Let_def)

text \<open>The scenario \<open>subsets={"Lon":[10,10],"Lat":[40,40]}\<close> with \<open>bbox=[10,40,20,50]\<close>.\<close>

theorem C2_exclusive_witness:
  "[''Lon'' \<mapsto> [10, 10], ''Lat'' \<mapsto> [40, 40::real]]
     (cp_x_axis_label (p_coverage_properties (ex_provider ex_dataset None))) \<noteq> None
   \<and> [''Lon'' \<mapsto> [10, 10], ''Lat'' \<mapsto> [40, 40::real]]
     (cp_y_axis_label (p_coverage_properties (ex_provider ex_dataset None))) \<noteq> None
   \<and> [10, 40, 20, 50::real] \<noteq> []
   \<and> query (ex_env ex_dataset) (ex_provider ex_dataset None) []
       [''Lon'' \<mapsto> [10, 10], ''Lat'' \<mapsto> [40, 40]] [10, 40, 20, 50] ''json'' =
     (Inl (ProviderQueryError ''bbox and subsetting by coordinates are exclusive''), [])"
proof -
  have x: "[''Lon'' \<mapsto> [10, 10], ''Lat'' \<mapsto> [40, 40::real]]
     (cp_x_axis_label (p_coverage_properties (ex_provider ex_dataset None))) \<noteq> None"
    by (simp add: ex_provider_def ex_coverage_properties_def)
  have y: "[''Lon'' \<mapsto> [10, 10], ''Lat'' \<mapsto> [40, 40::real]]
     (cp_y_axis_label (p_coverage_properties (ex_provider ex_dataset None))) \<noteq> None"
    by (simp add: ex_provider_def ex_coverage_properties_def)
  have b: "[10, 40, 20, 50::real] \<noteq> []" by simp
  show ?thesis
    by (intro conjI x y b C2_bbox_and_axis_subsets_exclusive [OF x y b])
qed

text \<open>
  Claim C8. A query that returns dispatches on \<open>format_\<close> as follows: the value
  \<open>json\<close> gives a CoverageJSON document, and no encoder capability is called; any other
  value whose lower-case form is \<open>geotiff\<close> gives the bytes that the GeoTIFF writer
  returned; every other value gives the bytes that \<open>to_netcdf\<close> returned.
\<close>

theorem C8_format_dispatch:
  assumes "query e self range_subset subsets bbox fmt = (Inr out, ev)"
  shows "(fmt = ''json'' \<longrightarrow>
            (\<exists>cj p. out = CoverageJSON cj \<and> ev = [Load (p_product_name self) p]))
       \<and> (fmt \<noteq> ''json'' \<and> lower fmt = ''geotiff'' \<longrightarrow>
            (\<exists>b p m a. out = GeoTIFF b
               \<and> ev = [Load (p_product_name self) p, MemfileOpen m, DestWrite a]
               \<and> env_dest_write e m a = Inr b))
       \<and> (fmt \<noteq> ''json'' \<and> lower fmt \<noteq> ''geotiff'' \<longrightarrow>
            (\<exists>b p d. out = NetCDF b
               \<and> ev = [Load (p_product_name self) p, ToNetcdf d]
               \<and> env_to_netcdf e d = Inr b))"
  using assms
  by (auto simp: query_def Let_def split: if_splits sum.splits option.splits dest!: query_geotiff_Inr)

text \<open>
  Three queries on the example: \<open>json\<close>, \<open>GeoTIFF\<close> (mixed case) and \<open>JSON\<close>, which
  is neither \<open>json\<close> nor a spelling of \<open>geotiff\<close> and so falls through to NetCDF.
\<close>

theorem C8_format_dispatch_witness:
  "(\<exists>cj p. query (ex_env ex_dataset) (ex_provider ex_dataset None) [''B1'']
              [''Lon'' \<mapsto> [0, 3], ''Lat'' \<mapsto> [30, 32]] [] ''json''
            = (Inr (CoverageJSON cj), [Load ''s2'' p]))
   \<and> (\<exists>b p m a. query (ex_env ex_dataset) (ex_provider ex_dataset None) [] Map.empty [] ''GeoTIFF''
            = (Inr (GeoTIFF b), [Load ''s2'' p, MemfileOpen m, DestWrite a]))
   \<and> (\<exists>b p d. query (ex_env ex_dataset) (ex_provider ex_dataset None) [] Map.empty [] ''JSON''
            = (Inr (NetCDF b), [Load ''s2'' p, ToNetcdf d]))"
proof -
  obtain o1 e1 where q1: "query (ex_env ex_dataset) (ex_provider ex_dataset None) [''B1'']
              [''Lon'' \<mapsto> [0, 3], ''Lat'' \<mapsto> [30, 32]] [] ''json'' = (Inr o1, e1)"
    by (simp add: query_defs ex_defs ex_env_simps)
  obtain o2 e2 where q2: "query (ex_env ex_dataset) (ex_provider ex_dataset None) [] Map.empty []
              ''GeoTIFF'' = (Inr o2, e2)"
    by (simp add: query_defs ex_defs ex_env_simps)
  obtain o3 e3 where q3: "query (ex_env ex_dataset) (ex_provider ex_dataset None) [] Map.empty []
              ''JSON'' = (Inr o3, e3)"
    by (simp add: query_defs ex_defs ex_env_simps)
  have l2: "lower ''GeoTIFF'' = ''geotiff''" and l3: "lower ''JSON'' \<noteq> ''geotiff''"
    by (simp_all add: lower_def lower_char_def)
  show ?thesis
    using C8_format_dispatch [OF q1] C8_format_dispatch [OF q2] C8_format_dispatch [OF q3]
      q1 q2 q3 l2 l3
    by (simp add: ex_p_product_name) blast
qed

text \<open>
  Claim C1, at a query whose bbox lies inside the extent of a product stored in EPSG:4326.
  The claim asks for the window \<open>(1, 30, 2, 31)\<close>. In the branch for equal reference
  systems the source only logs, and \<open>minx, miny, maxx, maxy\<close> keep the full extent
  assigned on line 119: the window handed to \<open>dc.load\<close> is \<open>(0, 30, 3, 32)\<close>. (The
  lemma \<open>spatial_subset_same_crs\<close> shows this for every four-number bbox.)
\<close>

theorem C1_bbox_ignored_when_native_crs_is_wgs84:
  "crs_to_epsg (p_crs_obj (ex_provider ex_dataset None)) = Some 4326
   \<and> spatial_subset (ex_env ex_dataset) (ex_provider ex_dataset None) Map.empty [1, 30, 2, 31]
       = Inr (0, 30, 3, 32)
   \<and> snd (query (ex_env ex_dataset) (ex_provider ex_dataset None) [] Map.empty [1, 30, 2, 31] ''json'')
       = [Load ''s2'' \<lparr> lp_crs = ''epsg:4326'', lp_align = (1 / 2, 1 / 2), lp_x = (0, 3),
                          lp_y = (30, 32), lp_measurements = None \<rparr>]"
  by (simp add: query_defs ex_defs ex_env_simps)

text \<open>
  Claim C7. Whenever a query opens the in-memory raster, the metadata it passes hold the
  \<open>dtype\<close> and \<open>nodata\<close> of the first measurement descriptor, a \<open>count\<close> equal to
  the number of selected bands (the requested bands, or all bands of the loaded dataset
  when none is requested), and as \<open>transform\<close> the first six coefficients of the
  transform stored in the descriptor: nothing of it depends on the window.
\<close>

theorem C7_geotiff_metadata:
  assumes "query e self range_subset subsets bbox fmt = (res, ev)"
    and "MemfileOpen m \<in> set ev"
  shows "\<exists>p loaded m0 rest.
           hd ev = Load (p_product_name self) p
           \<and> dc_load (p_dc self) (p_product_name self) p = Inr loaded
           \<and> p_measurement_properties self = m0 # rest
           \<and> map_of m ''dtype'' = Some (MStr (m_dtype m0))
           \<and> map_of m ''nodata'' = Some (MNum (m_nodata m0))
           \<and> map_of m ''count'' =
               Some (MInt (int (length (if range_subset = [] then dict_keys (ds_data_vars loaded)
                                        else range_subset))))
           \<and> 6 \<le> length (cp_transform (p_coverage_properties self))
           \<and> map_of m ''transform'' =
               Some (MAffine (cp_transform (p_coverage_properties self) ! 0)
                             (cp_transform (p_coverage_properties self) ! 1)
                             (cp_transform (p_coverage_properties self) ! 2)
                             (cp_transform (p_coverage_properties self) ! 3)
                             (cp_transform (p_coverage_properties self) ! 4)
                             (cp_transform (p_coverage_properties self) ! 5))"
proof -
  from query_reaches_geotiff [OF assms] obtain window loaded dataset om where
    ld: "dc_load (p_dc self) (p_product_name self) (load_parameters self range_subset window) = Inr loaded"
    and g: "query_geotiff e self om
              (if range_subset = [] then dict_keys (ds_data_vars loaded) else range_subset)
              dataset
              [Load (p_product_name self) (load_parameters self range_subset window)] = (res, ev)"
    by blast
  have nin: "MemfileOpen m \<notin> set [Load (p_product_name self) (load_parameters self range_subset window)]"
    by simp
  have hd: "hd ev = Load (p_product_name self) (load_parameters self range_subset window)"
    using g by (rule query_geotiff_hd)
  from query_geotiff_meta [OF g assms(2) nin] ld hd show ?thesis
    by auto
qed

text \<open>
  Band \<open>B2\<close> has type \<open>float32\<close>; the raster still gets \<open>int16\<close> and \<open>-999\<close> from
  \<open>B1\<close>, the first measurement.
\<close>

theorem C7_geotiff_metadata_witness:
  "(\<exists>p m a. query (ex_env ex_dataset) (ex_provider ex_dataset None) [''B2''] Map.empty [] ''geotiff''
              = (Inr (GeoTIFF ''II*''), [Load ''s2'' p, MemfileOpen m, DestWrite a])
      \<and> MemfileOpen m \<in> set [Load ''s2'' p, MemfileOpen m, DestWrite a]
      \<and> map_of m ''dtype'' = Some (MStr ''int16'')
      \<and> map_of m ''nodata'' = Some (MNum (- 999))
      \<and> map_of m ''count'' = Some (MInt 1)
      \<and> map_of m ''transform'' = Some (MAffine 1 0 0 0 (- 1) 32))"
proof -
  obtain p m a where
    q: "query (ex_env ex_dataset) (ex_provider ex_dataset None) [''B2''] Map.empty [] ''geotiff''
          = (Inr (GeoTIFF ''II*''), [Load ''s2'' p, MemfileOpen m, DestWrite a])"
    by (simp add: query_defs ex_defs ex_env_simps)
  have mem: "MemfileOpen m \<in> set [Load ''s2'' p, MemfileOpen m, DestWrite a]"
    by simp
  have "map_of m ''dtype'' = Some (MStr ''int16'')
      \<and> map_of m ''nodata'' = Some (MNum (- 999))
      \<and> map_of m ''count'' = Some (MInt 1)
      \<and> map_of m ''transform'' = Some (MAffine 1 0 0 0 (- 1) 32)"
    using C7_geotiff_metadata [OF q mem]
    by (auto simp: ex_provider_def ex_measurement_properties_def ex_coverage_properties_def
          ex_transform_def)
  with q mem show ?thesis by blast
qed

text \<open>
  Claim C10, as amended. In every CoverageJSON document that a query returns, the keys of
  \<open>ranges\<close> are the keys of \<open>parameters\<close>, in the same order; and when the provider
  options do not bind the key \<open>bands\<close>, these keys are exactly the selected bands: the
  requested bands when \<open>range_subset\<close> is non-empty, else all bands of the loaded
  dataset.
\<close>

theorem C10_ranges_and_parameters_keys:
  assumes "query e self range_subset subsets bbox fmt = (Inr (CoverageJSON cj), ev)"
  shows "dict_keys (cj_ranges cj) = dict_keys (cj_parameters cj)
       \<and> ((case p_options self of None \<Rightarrow> True | Some opts \<Rightarrow> ''bands'' \<notin> fst ` set opts) \<longrightarrow>
            (\<exists>p loaded. ev = [Load (p_product_name self) p]
               \<and> dc_load (p_dc self) (p_product_name self) p = Inr loaded
               \<and> set (dict_keys (cj_parameters cj)) =
                   set (if range_subset = [] then dict_keys (ds_data_vars loaded)
                        else range_subset)))"
proof -
  from query_returns_covjson [OF assms] obtain window loaded dataset om where
    ld: "dc_load (p_dc self) (p_product_name self) (load_parameters self range_subset window) = Inr loaded"
    and ev: "ev = [Load (p_product_name self) (load_parameters self range_subset window)]"
    and om: "out_metadata self window
               (if range_subset = [] then dict_keys (ds_data_vars loaded) else range_subset)
             = Inr om"
    and g: "gen_covjson self om dataset = Inr cj"
    by blast
  note k = gen_covjson_keys [OF g]
  have "set (dict_keys (cj_parameters cj)) =
          set (if range_subset = [] then dict_keys (ds_data_vars loaded) else range_subset)"
    if o: "case p_options self of None \<Rightarrow> True | Some opts \<Rightarrow> ''bands'' \<notin> fst ` set opts"
  proof -
    from out_metadata_bands [OF om o] k
    have "MStr ` set (dict_keys (cj_parameters cj)) =
            MStr ` set (if range_subset = [] then dict_keys (ds_data_vars loaded) else range_subset)"
      by auto
    then show ?thesis
      by (simp add: inj_image_eq_iff inj_on_def)
  qed
  with k ld ev show ?thesis by blast
qed

text \<open>
  The claim as stated fails when the options bind \<open>bands\<close>: the loop on lines 216 to
  219 copies every option into \<open>out_meta\<close> after \<open>out_meta['bands']\<close> was set, so the
  document has the bands of the options, here \<open>B2\<close> alone although no band was requested
  and the loaded dataset has \<open>B1\<close> and \<open>B2\<close>.
\<close>

theorem C10_options_rebind_bands_counterexample:
  "map_option (dict_keys \<circ> cj_parameters)
     (covjson_of (query (ex_env ex_dataset)
        (ex_provider ex_dataset (Some [(''bands'', MStrs [''B2''])])) [] Map.empty [] ''json''))
     = Some [''B2'']
   \<and> map_option (dict_keys \<circ> cj_ranges)
     (covjson_of (query (ex_env ex_dataset)
        (ex_provider ex_dataset (Some [(''bands'', MStrs [''B2''])])) [] Map.empty [] ''json''))
     = Some [''B2'']
   \<and> dict_keys (ds_data_vars ex_dataset) = [''B1'', ''B2'']"
  by (simp add: covjson_of_def query_defs ex_defs ex_env_simps)

text \<open>A request that names \<open>B2\<close> twice, with an option that is not \<open>bands\<close>.\<close>

theorem C10_keys_witness:
  "(case p_options (ex_provider ex_dataset (Some [(''compress'', MStr ''lzw'')])) of
      None \<Rightarrow> True | Some opts \<Rightarrow> ''bands'' \<notin> fst ` set opts)
   \<and> (\<exists>cj ev. query (ex_env ex_dataset)
                  (ex_provider ex_dataset (Some [(''compress'', MStr ''lzw'')]))
                  [''B2'', ''B1'', ''B2''] Map.empty [] ''json''
                = (Inr (CoverageJSON cj), ev)
          \<and> dict_keys (cj_ranges cj) = dict_keys (cj_parameters cj)
          \<and> set (dict_keys (cj_parameters cj)) = {''B1'', ''B2''})"
proof -
  have o: "case p_options (ex_provider ex_dataset (Some [(''compress'', MStr ''lzw'')])) of
      None \<Rightarrow> True | Some opts \<Rightarrow> ''bands'' \<notin> fst ` set opts"
    by (simp add: ex_provider_def)
  obtain cj ev where q: "query (ex_env ex_dataset)
                  (ex_provider ex_dataset (Some [(''compress'', MStr ''lzw'')]))
                  [''B2'', ''B1'', ''B2''] Map.empty [] ''json''
                = (Inr (CoverageJSON cj), ev)"
    by (simp add: query_defs ex_defs ex_env_simps)
  have "dict_keys (cj_ranges cj) = dict_keys (cj_parameters cj)
          \<and> set (dict_keys (cj_parameters cj)) = {''B1'', ''B2''}"
    using C10_ranges_and_parameters_keys [OF q] o by auto
  with o q show ?thesis by blast
qed

text \<open>
  Claim C3, as amended. The encoder never lets an \<open>IndexError\<close> reach the caller; and
  when the metadata are those that \<open>query\<close> builds, every selected band is in the dataset
  with a \<open>units\<close> attribute, and reading the data of some selected band inside the
  \<open>try\<close> block raises \<open>IndexError\<close> (no read raises anything else), the encoder raises
  \<open>ProviderQueryError\<close> with the message \<open>Invalid query parameter\<close>.
\<close>

theorem C3_index_error_in_ranges_is_query_error:
  "gen_covjson self md ds \<noteq> Inl IndexError
   \<and> (map_of md ''bbox'' = Some (MNums [x0, y0, x1, y1])
        \<and> map_of md ''width'' = Some w \<and> map_of md ''height'' = Some h
        \<and> map_of md ''bands'' = Some (MStrs bands)
        \<and> (\<forall>b\<in>set bands. \<exists>da. map_of (ds_data_vars ds) b = Some da
              \<and> map_of (da_attrs da) ''units'' \<noteq> None
              \<and> (da_values da = Inl IndexError \<or> (\<exists>v. da_values da = Inr v)))
        \<and> (\<exists>b\<in>set bands. \<exists>da. map_of (ds_data_vars ds) b = Some da
              \<and> da_values da = Inl IndexError)
      \<longrightarrow> gen_covjson self md ds = Inl (ProviderQueryError ''Invalid query parameter''))"
proof (intro conjI impI)
  show "gen_covjson self md ds \<noteq> Inl IndexError"
    by (rule gen_covjson_no_IndexError)
next
  assume a: "map_of md ''bbox'' = Some (MNums [x0, y0, x1, y1])
        \<and> map_of md ''width'' = Some w \<and> map_of md ''height'' = Some h
        \<and> map_of md ''bands'' = Some (MStrs bands)
        \<and> (\<forall>b\<in>set bands. \<exists>da. map_of (ds_data_vars ds) b = Some da
              \<and> map_of (da_attrs da) ''units'' \<noteq> None
              \<and> (da_values da = Inl IndexError \<or> (\<exists>v. da_values da = Inr v)))
        \<and> (\<exists>b\<in>set bands. \<exists>da. map_of (ds_data_vars ds) b = Some da
              \<and> da_values da = Inl IndexError)"
  then have units: "\<forall>b\<in>set bands. \<exists>da. map_of (ds_data_vars ds) b = Some da
             \<and> map_of (da_attrs da) ''units'' \<noteq> None"
    by blast
  obtain ps where ps: "parameters_loop ds (map MStr bands) [] = Inr ps"
    using parameters_loop_ok [OF units] by blast
  have keys: "set (dict_keys ps) = set bands"
  proof -
    have "MStr ` set (dict_keys ps) = MStr ` set bands"
      using parameters_loop_keys [OF ps] by (simp add: dict_keys_def)
    then show ?thesis by (simp add: inj_image_eq_iff inj_on_def)
  qed
  have r: "ranges_loop md ds (dict_keys ps) [] = Inl IndexError"
    using a by (intro ranges_loop_IndexError [of md h w]) (auto simp: keys)
  show "gen_covjson self md ds = Inl (ProviderQueryError ''Invalid query parameter'')"
    using a ps r by (simp add: gen_covjson_def dict_get_def unpack4_def)
qed

text \<open>
  The claim as stated fails for the attribute it names: \<open>dataset[bs].attrs['units']\<close>
  is read in the first loop (line 305), before the \<open>try\<close> block of line 318, and a
  missing key raises \<open>KeyError\<close>, which \<open>except IndexError\<close> would not catch either.
\<close>

theorem C3_missing_units_counterexample:
  "fst (query (ex_env ex_dataset_no_units) (ex_provider ex_dataset_no_units None)
         [''B1''] Map.empty [] ''json'') = Inl (KeyError ''units'')"
  by (simp add: query_defs ex_defs ex_env_simps ex_dataset_no_units_def)

text \<open>A band whose data cannot be read.\<close>

theorem C3_index_error_witness:
  "ds_data_vars ex_dataset_bad_read
     = [(''B1'', \<lparr> da_dims = [''time'', ''latitude'', ''longitude''], da_dtype = ''int16'',
                    da_attrs = [(''units'', ''1'')], da_values = Inl IndexError \<rparr>)]
   \<and> gen_covjson (ex_provider ex_dataset_bad_read None)
        [(''bbox'', MNums [0, 30, 3, 32]), (''width'', MNum 3), (''height'', MNum 2),
         (''bands'', MStrs [''B1''])]
        ex_dataset_bad_read
       = Inl (ProviderQueryError ''Invalid query parameter'')"
proof -
  have a: "\<forall>b\<in>set [''B1'']. \<exists>da. map_of (ds_data_vars ex_dataset_bad_read) b = Some da
        \<and> map_of (da_attrs da) ''units'' \<noteq> None
        \<and> (da_values da = Inl IndexError \<or> (\<exists>v. da_values da = Inr v))"
    by (simp add: ex_dataset_bad_read_def)
  have b: "\<exists>b\<in>set [''B1'']. \<exists>da. map_of (ds_data_vars ex_dataset_bad_read) b = Some da
        \<and> da_values da = Inl IndexError"
    by (simp add: ex_dataset_bad_read_def)
  have "gen_covjson (ex_provider ex_dataset_bad_read None)
        [(''bbox'', MNums [0, 30, 3, 32]), (''width'', MNum 3), (''height'', MNum 2),
         (''bands'', MStrs [''B1''])]
        ex_dataset_bad_read
       = Inl (ProviderQueryError ''Invalid query parameter'')"
    using a b
      C3_index_error_in_ranges_is_query_error
        [where md = "[(''bbox'', MNums [0, 30, 3, 32]), (''width'', MNum 3), (''height'', MNum 2),
                      (''bands'', MStrs [''B1''])]"
           and ds = ex_dataset_bad_read and bands = "[''B1'']" and ?x0.0 = 0 and ?y0.0 = 30
           and ?x1.0 = 3 and ?y1.0 = 32 and w = "MNum 3" and h = "MNum 2"
           and self = "ex_provider ex_dataset_bad_read None"]
    by simp
  then show ?thesis by (simp add: ex_dataset_bad_read_def)
qed

text \<open>
  Claim C5, as amended. In every query that opens the in-memory raster, the time dimension
  of the loaded dataset is squeezed, not sliced. If the dataset has more than one time
  slice, the query ends in an error and nothing is written (the error is the
  \<open>ValueError\<close> of \<open>squeeze\<close> or of \<open>np.stack\<close> when the raster was opened). Whenever
  an array is written, the dataset has exactly one time slice and the array is the stack,
  band first, of that slice of each selected band: of the variable of the loaded dataset
  that has the name of the band (the data variable of that name, or the coordinate of that
  name when there is no such data variable, as \<open>dataset[bs]\<close> resolves it).
\<close>

theorem C5_geotiff_squeezes_time:
  assumes "query e self range_subset subsets bbox fmt = (res, ev)"
    and "MemfileOpen m \<in> set ev"
  shows "\<exists>p loaded.
           hd ev = Load (p_product_name self) p
           \<and> dc_load (p_dc self) (p_product_name self) p = Inr loaded
           \<and> (\<forall>n. map_of (ds_sizes loaded) ''time'' = Some n \<and> 1 < n \<longrightarrow>
                 (\<exists>err. res = Inl err) \<and> (\<forall>a. DestWrite a \<notin> set ev)
                 \<and> (env_memfile_open e m = Inr () \<longrightarrow> (\<exists>msg. res = Inl (ValueError msg))))
           \<and> (\<forall>a. DestWrite a \<in> set ev \<longrightarrow>
                 map_of (ds_sizes loaded) ''time'' = Some 1
                 \<and> (\<exists>vs. a = Arr vs
                       \<and> list_all2
                           (\<lambda>b v. \<exists>da. dataset_variable loaded b = Some da
                                      \<and> time_slice da = Inr v)
                           (if range_subset = [] then dict_keys (ds_data_vars loaded)
                            else range_subset) vs))"
proof -
  from query_reaches_geotiff [OF assms] obtain window loaded dataset om where
    ld: "dc_load (p_dc self) (p_product_name self) (load_parameters self range_subset window)
           = Inr loaded"
    and pop: "time_attrs_pop_units loaded = Inr dataset"
    and g: "query_geotiff e self om
               (if range_subset = [] then dict_keys (ds_data_vars loaded) else range_subset)
               dataset
               [Load (p_product_name self) (load_parameters self range_subset window)] = (res, ev)"
    by blast
  let ?bands = "if range_subset = [] then dict_keys (ds_data_vars loaded) else range_subset"
  let ?ev0 = "[Load (p_product_name self) (load_parameters self range_subset window)]"
  note sizes = time_attrs_pop_units_sizes [OF pop]
  have hd: "hd ev = Load (p_product_name self) (load_parameters self range_subset window)"
    using g by (rule query_geotiff_hd)
  have many: "(\<exists>err. res = Inl err) \<and> (\<forall>a. DestWrite a \<notin> set ev)
                 \<and> (env_memfile_open e m = Inr () \<longrightarrow> (\<exists>msg. res = Inl (ValueError msg)))"
    if n: "map_of (ds_sizes loaded) ''time'' = Some n" "1 < n" for n
  proof -
    have "map_of (ds_sizes dataset) ''time'' = Some n" using n sizes by simp
    from band_values_many_times [OF this n(2), of ?bands] obtain msg where
      "band_values dataset ?bands = Inl (ValueError msg)
         \<or> (\<exists>vs. band_values dataset ?bands = Inr vs \<and> np_stack vs = Inl (ValueError msg))"
      by blast
    from query_geotiff_stack_error [OF g assms(2) _ this] show ?thesis
      by auto
  qed
  have one: "map_of (ds_sizes loaded) ''time'' = Some 1
                 \<and> (\<exists>vs. a = Arr vs
                       \<and> list_all2
                           (\<lambda>b v. \<exists>da. dataset_variable loaded b = Some da
                                      \<and> time_slice da = Inr v) ?bands vs)"
    if a: "DestWrite a \<in> set ev" for a
  proof -
    from query_geotiff_DestWrite [OF g a] obtain vs where
      bv: "band_values dataset ?bands = Inr vs" and st: "np_stack vs = Inr a"
      by auto
    from np_stack_Inr [OF st] have av: "a = Arr vs" and ne: "vs \<noteq> []" by simp_all
    from band_values_slices [OF bv]
    have l0: "list_all2 (\<lambda>b v. \<exists>da. dataset_variable dataset b = Some da \<and> time_slice da = Inr v)
               ?bands vs"
      and t: "?bands \<noteq> [] \<longrightarrow> map_of (ds_sizes loaded) ''time'' = Some 1"
      by (simp_all add: sizes)
    have conv: "\<exists>da0. dataset_variable loaded b = Some da0 \<and> time_slice da0 = Inr v"
      if "\<exists>da. dataset_variable dataset b = Some da \<and> time_slice da = Inr v" for b v
      using that unfolding time_attrs_pop_units_variable [OF pop]
      by (auto simp: time_slice_pop_units split: if_splits)
    from l0 have l: "list_all2 (\<lambda>b v. \<exists>da. dataset_variable loaded b = Some da \<and> time_slice da = Inr v)
               ?bands vs"
      by (rule list_all2_mono) (rule conv)
    from l ne have "?bands \<noteq> []" by (auto simp: list_all2_Nil)
    with t l av show ?thesis by blast
  qed
  from ld hd many one show ?thesis by blast
qed

text \<open>
  The claim as stated fails on a dataset with two time slices: no slice is chosen, the
  query raises.
\<close>

theorem C5_two_time_slices_counterexample:
  "fst (query (ex_env ex_dataset_two_times) (ex_provider ex_dataset_two_times None)
         [] Map.empty [] ''geotiff'')
     = Inl (ValueError ''cannot select a dimension to squeeze out which has length greater than one'')"
  by (simp add: query_defs ex_provider_def ex_coverage_properties_def ex_measurement_properties_def
        ex_wgs84_def ex_transform_def ex_dc_def ex_load_def ex_dataset_two_times_def ex_band_def
        ex_coords_def ex_env_simps)

text \<open>One time slice is written without its time axis; two time slices raise.\<close>

theorem C5_geotiff_squeeze_witness:
  "(\<exists>p m a. query (ex_env ex_dataset) (ex_provider ex_dataset None) [''B1''] Map.empty [] ''geotiff''
              = (Inr (GeoTIFF ''II*''), [Load ''s2'' p, MemfileOpen m, DestWrite a])
       \<and> a = Arr [Arr [Arr [Scalar 1, Scalar 2, Scalar 3], Arr [Scalar 4, Scalar 5, Scalar 6]]]
       \<and> map_of (ds_sizes ex_dataset) ''time'' = Some 1)
   \<and> (\<exists>p m msg. query (ex_env ex_dataset_two_times) (ex_provider ex_dataset_two_times None)
                   [] Map.empty [] ''geotiff''
                 = (Inl (ValueError msg), [Load ''s2'' p, MemfileOpen m])
       \<and> map_of (ds_sizes ex_dataset_two_times) ''time'' = Some 2)"
proof -
  obtain p m a where
    q: "query (ex_env ex_dataset) (ex_provider ex_dataset None) [''B1''] Map.empty [] ''geotiff''
          = (Inr (GeoTIFF ''II*''), [Load ''s2'' p, MemfileOpen m, DestWrite a])"
    and a: "a = Arr [Arr [Arr [Scalar 1, Scalar 2, Scalar 3], Arr [Scalar 4, Scalar 5, Scalar 6]]]"
    by (simp add: query_defs ex_defs ex_env_simps)
  have mem: "MemfileOpen m \<in> set [Load ''s2'' p, MemfileOpen m, DestWrite a]"
    by simp
  have one: "map_of (ds_sizes ex_dataset) ''time'' = Some 1"
    using C5_geotiff_squeezes_time [OF q mem] by (auto dest: ex_load_sizes)
  obtain res p' m' where
    q': "query (ex_env ex_dataset_two_times) (ex_provider ex_dataset_two_times None)
           [] Map.empty [] ''geotiff'' = (res, [Load ''s2'' p', MemfileOpen m'])"
    by (simp add: query_defs ex_provider_def ex_coverage_properties_def
          ex_measurement_properties_def ex_wgs84_def ex_transform_def ex_dc_def ex_load_def
          ex_dataset_two_times_def ex_band_def ex_coords_def ex_env_simps)
  have mem': "MemfileOpen m' \<in> set [Load ''s2'' p', MemfileOpen m']"
    by simp
  have two: "map_of (ds_sizes ex_dataset_two_times) ''time'' = Some 2"
    by (simp add: ex_dataset_two_times_def)
  have "\<exists>msg. res = Inl (ValueError msg)"
    using C5_geotiff_squeezes_time [OF q' mem'] two
    by (auto simp: ex_env_simps dest!: ex_load_sizes)
  with q q' a one two show ?thesis by blast
qed

text \<open>
  Claim C4, as amended. In every CoverageJSON document that a query returns, every entry
  of \<open>ranges\<close> belongs to a variable of the loaded dataset, and its \<open>values\<close> are the
  array of that variable flattened in row-major order. Its \<open>shape\<close> is
  \<open>[height, width]\<close> of the metadata: \<open>|(maxy - miny) / resy|\<close> and
  \<open>|(maxx - minx) / resx|\<close> of the window handed to \<open>dc.load\<close>, unless the provider
  options bind \<open>height\<close> or \<open>width\<close>. When the array is one grid of rows (alone or as the
  single time slice), \<open>values\<close> is the concatenation of the rows, y outer and x inner; and
  when the grid has exactly \<open>height\<close> rows of \<open>width\<close> values each, the number of values
  is \<open>shape[0] * shape[1]\<close>.
\<close>

theorem C4_values_are_flattened_band:
  assumes "query e self range_subset subsets bbox fmt = (Inr (CoverageJSON cj), ev)"
    and "map_of (cj_ranges cj) band = Some r"
  shows "\<exists>p loaded var arr h w.
           ev = [Load (p_product_name self) p]
           \<and> dc_load (p_dc self) (p_product_name self) p = Inr loaded
           \<and> dataset_variable loaded band = Some var \<and> da_values var = Inr arr
           \<and> rg_values r = flatten arr
           \<and> rg_shape r = [h, w]
           \<and> cp_resx (p_coverage_properties self) \<noteq> 0
           \<and> cp_resy (p_coverage_properties self) \<noteq> 0
           \<and> h = option_or self ''height''
                   (MNum \<bar>(snd (lp_y p) - fst (lp_y p)) / cp_resy (p_coverage_properties self)\<bar>)
           \<and> w = option_or self ''width''
                   (MNum \<bar>(snd (lp_x p) - fst (lp_x p)) / cp_resx (p_coverage_properties self)\<bar>)
           \<and> (\<forall>rows n. (arr = grid rows \<or> arr = Arr [grid rows])
                  \<and> (\<forall>row\<in>set rows. length row = n)
                  \<and> h = MNum (real (length rows)) \<and> w = MNum (real n)
                \<longrightarrow> rg_values r = concat rows \<and> values_match_shape r)"
proof -
  from query_returns_covjson [OF assms(1)] obtain window loaded dataset om where
    ld: "dc_load (p_dc self) (p_product_name self) (load_parameters self range_subset window) = Inr loaded"
    and pop: "time_attrs_pop_units loaded = Inr dataset"
    and ev: "ev = [Load (p_product_name self) (load_parameters self range_subset window)]"
    and om: "out_metadata self window
               (if range_subset = [] then dict_keys (ds_data_vars loaded) else range_subset)
             = Inr om"
    and g: "gen_covjson self om dataset = Inr cj"
    by blast
  obtain minx miny maxx maxy where win: "window = (minx, miny, maxx, maxy)"
    by (cases window) auto
  let ?p = "load_parameters self range_subset window"
  have px: "lp_x ?p = (minx, maxx)" and py: "lp_y ?p = (miny, maxy)"
    by (simp_all add: load_parameters_def win)
  from gen_covjson_entry [OF g assms(2)] obtain da arr h w where
    da: "dataset_variable dataset band = Some da" and arr: "da_values da = Inr arr"
    and h: "map_of om ''height'' = Some h" and w: "map_of om ''width'' = Some w"
    and sh: "rg_shape r = [h, w]" and v: "rg_values r = flatten arr"
    by blast
  from time_attrs_pop_units_values [OF pop da] arr obtain var where
    var: "dataset_variable loaded band = Some var" and varr: "da_values var = Inr arr"
    by auto
  from out_metadata_shape [OF om [unfolded win]] h w
  have res: "cp_resx (p_coverage_properties self) \<noteq> 0" "cp_resy (p_coverage_properties self) \<noteq> 0"
    and hh: "h = option_or self ''height''
                   (MNum \<bar>(snd (lp_y ?p) - fst (lp_y ?p)) / cp_resy (p_coverage_properties self)\<bar>)"
    and ww: "w = option_or self ''width''
                   (MNum \<bar>(snd (lp_x ?p) - fst (lp_x ?p)) / cp_resx (p_coverage_properties self)\<bar>)"
    by (simp_all add: px py)
  have "rg_values r = concat rows \<and> values_match_shape r"
    if "arr = grid rows \<or> arr = Arr [grid rows]" and "\<forall>row\<in>set rows. length row = n"
      and "h = MNum (real (length rows))" and "w = MNum (real n)" for rows n
  proof -
    from that(1) v have c: "rg_values r = concat rows"
      by (auto simp: flatten_grid)
    with that(2) have "length (rg_values r) = length rows * n"
      by (simp add: length_concat_rows)
    with c sh that(3,4) show ?thesis
      by (simp add: values_match_shape_def shape_product_def)
  qed
  with ld ev var varr v sh res hh ww show ?thesis by blast
qed

text \<open>
  The claim as stated fails: \<open>shape\<close> is not taken from the array but is
  \<open>[height, width]\<close> of the metadata, computed from the window and the resolution. For
  the window \<open>Lon(0:2.5), Lat(30:32)\<close> at a resolution of one degree it is
  \<open>[2, 2.5]\<close>, while the loaded grid of two rows and three columns has six values.
\<close>

theorem C4_shape_differs_from_values_counterexample:
  "map_option (map (values_match_shape \<circ> snd) \<circ> cj_ranges)
     (covjson_of (query (ex_env ex_dataset) (ex_provider ex_dataset None) [''B1'']
        [''Lon'' \<mapsto> [0, 5 / 2], ''Lat'' \<mapsto> [30, 32]] [] ''json''))
     = Some [False]
   \<and> map_option cj_ranges
     (covjson_of (query (ex_env ex_dataset) (ex_provider ex_dataset None) [''B1'']
        [''Lon'' \<mapsto> [0, 5 / 2], ''Lat'' \<mapsto> [30, 32]] [] ''json''))
     = Some [(''B1'', \<lparr> rg_type = ''NdArray'', rg_dataType = ''int16'',
                          rg_axisNames = [''y'', ''x''],
                          rg_shape = [MNum 2, MNum (5 / 2)],
                          rg_values = [1, 2, 3, 4, 5, 6] \<rparr>)]"
  by (simp add: covjson_of_def query_defs ex_defs ex_env_simps values_match_shape_def
        shape_product_def)

text \<open>
  A window that the grid of two rows and three columns fills exactly: the shape is
  \<open>[|(32 - 30) / -1|, |(3 - 0) / 1|]\<close> and there are six values.
\<close>

theorem C4_values_witness:
  "\<exists>cj p r. query (ex_env ex_dataset) (ex_provider ex_dataset None) [''B1'']
                 [''Lon'' \<mapsto> [0, 3], ''Lat'' \<mapsto> [30, 32]] [] ''json''
               = (Inr (CoverageJSON cj), [Load ''s2'' p])
       \<and> map_of (cj_ranges cj) ''B1'' = Some r
       \<and> lp_x p = (0, 3) \<and> lp_y p = (30, 32)
       \<and> rg_shape r = [MNum 2, MNum 3]
       \<and> rg_values r = concat [[1, 2, 3], [4, 5, 6]]
       \<and> values_match_shape r"
proof -
  obtain cj p r where
    q: "query (ex_env ex_dataset) (ex_provider ex_dataset None) [''B1'']
          [''Lon'' \<mapsto> [0, 3], ''Lat'' \<mapsto> [30, 32]] [] ''json''
        = (Inr (CoverageJSON cj), [Load ''s2'' p])"
    and m: "map_of (cj_ranges cj) ''B1'' = Some r"
    and px: "lp_x p = (0, 3)" and py: "lp_y p = (30, 32)"
    and pm: "lp_measurements p = Some [''B1'']"
    by (simp add: query_defs ex_defs ex_env_simps)
  have o: "option_or (ex_provider ex_dataset None) k d = d" for k d
    by (simp add: option_or_def ex_provider_def)
  have cp: "cp_resx (p_coverage_properties (ex_provider ex_dataset None)) = 1"
    "cp_resy (p_coverage_properties (ex_provider ex_dataset None)) = - 1"
    by (simp_all add: ex_provider_def ex_coverage_properties_def)
  have ld: "dc_load (p_dc (ex_provider ex_dataset None))
              (p_product_name (ex_provider ex_dataset None)) p
            = Inr (ex_dataset \<lparr> ds_data_vars :=
                     filter (\<lambda>kv. fst kv \<in> set [''B1'']) (ds_data_vars ex_dataset) \<rparr>)"
    by (simp add: ex_provider_def ex_dc_def ex_load_def pm)
  from C4_values_are_flattened_band [OF q m] obtain p' loaded var arr h w where
    p': "[Load ''s2'' p] = [Load (p_product_name (ex_provider ex_dataset None)) p']"
    and ld': "dc_load (p_dc (ex_provider ex_dataset None))
                (p_product_name (ex_provider ex_dataset None)) p' = Inr loaded"
    and var: "dataset_variable loaded ''B1'' = Some var"
    and arr: "da_values var = Inr arr"
    and sh: "rg_shape r = [h, w]"
    and h: "h = option_or (ex_provider ex_dataset None) ''height''
                  (MNum \<bar>(snd (lp_y p') - fst (lp_y p'))
                          / cp_resy (p_coverage_properties (ex_provider ex_dataset None))\<bar>)"
    and w: "w = option_or (ex_provider ex_dataset None) ''width''
                  (MNum \<bar>(snd (lp_x p') - fst (lp_x p'))
                          / cp_resx (p_coverage_properties (ex_provider ex_dataset None))\<bar>)"
    and g: "\<forall>rows n. (arr = grid rows \<or> arr = Arr [grid rows])
                  \<and> (\<forall>row\<in>set rows. length row = n)
                  \<and> h = MNum (real (length rows)) \<and> w = MNum (real n)
                \<longrightarrow> rg_values r = concat rows \<and> values_match_shape r"
    by blast
  from p' have pp: "p' = p" by simp
  from ld' ld have loaded: "loaded = ex_dataset \<lparr> ds_data_vars :=
                     filter (\<lambda>kv. fst kv \<in> set [''B1'']) (ds_data_vars ex_dataset) \<rparr>"
    by (simp add: pp)
  from var arr have "arr = Arr [grid [[1, 2, 3], [4, 5, 6]]]"
    by (auto simp: loaded dataset_variable_def ex_dataset_def ex_band_def grid_def)
  moreover from h w have hw: "h = MNum 2" "w = MNum 3"
    by (simp_all add: pp px py o cp)
  ultimately have "rg_values r = concat [[1, 2, 3], [4, 5, 6]] \<and> values_match_shape r"
    using g [rule_format, of "[[1, 2, 3], [4, 5, 6]]" 3] by simp
  with q m px py sh hw show ?thesis by blast
qed

end
